theory Spec2Isabelle
  imports Complex_Main "HOL-Library.Multiset"
begin

section \<open>Python values\<close>

text \<open>
  The integration is Python. A decoded JSON document is a tree of \<open>None\<close>, \<open>bool\<close>,
  \<open>int\<close>, \<open>float\<close>, \<open>str\<close>, \<open>list\<close> and \<open>dict\<close> values. The type of floats is the
  parameter \<open>'f\<close>: the code only stores and converts floats, so nothing below depends on
  how they are represented. A dict is an association list read at the first binding of
  a key (the keys of a decoded dict are distinct).
\<close>

datatype 'f json =
    JNull
  | JBool bool
  | JInt int
  | JFloat 'f
  | JStr string
  | JList "'f json list"
  | JDict "(string \<times> 'f json) list"

text \<open>\<open>d.get(k)\<close> on a dict: the value, or \<open>None\<close> when the key is absent.\<close>

definition get :: "(string \<times> 'f json) list \<Rightarrow> string \<Rightarrow> 'f json" where
  "get d k = (case map_of d k of None \<Rightarrow> JNull | Some v \<Rightarrow> v)"

text \<open>
  The exceptions that can leave the functions modelled here. \<open>ValueError\<close> is caught
  wherever the code can raise it, so it is the \<open>None\<close> of a parser's result instead.
\<close>

datatype error = TypeError | OverflowError | IndexError

text \<open>
  The values \<open>x\<close> with \<open>isinstance(x, (int, float))\<close>. In Python \<open>bool\<close> is a subclass
  of \<open>int\<close>, so \<open>True\<close> and \<open>False\<close> pass this test.
\<close>

datatype 'f number = NBool bool | NInt int | NFloat 'f

fun as_number :: "'f json \<Rightarrow> 'f number option" where
  "as_number (JBool b) = Some (NBool b)"
| "as_number (JInt n) = Some (NInt n)"
| "as_number (JFloat x) = Some (NFloat x)"
| "as_number _ = None"

subsection \<open>Dates and datetimes\<close>

text \<open>
  \<open>datetime.date\<close> and \<open>datetime.datetime\<close> (a subclass of \<open>date\<close>). \<open>tzinfo\<close> is
  \<open>None\<close> for a naive datetime and the UTC offset in microseconds for an aware one.
\<close>

record date =
  year :: nat
  month :: nat
  day_of_month :: nat

record datetime = date +
  hour :: nat
  minute :: nat
  second :: nat
  microsecond :: nat
  tzinfo :: "int option"

definition date_of :: "datetime \<Rightarrow> date" where
  "date_of dt = \<lparr>year = year dt, month = month dt, day_of_month = day_of_month dt\<rparr>"

text \<open>Dates compare as the tuples \<open>(year, month, day)\<close>.\<close>

definition date_lt :: "date \<Rightarrow> date \<Rightarrow> bool" where
  "date_lt a b =
     (if year a = year b
      then (if month a = month b then day_of_month a < day_of_month b else month a < month b)
      else year a < year b)"

definition is_leap :: "nat \<Rightarrow> bool" where
  "is_leap y = (if y mod 400 = 0 then True else if y mod 100 = 0 then False else y mod 4 = 0)"

definition days_in_month :: "nat \<Rightarrow> nat \<Rightarrow> nat" where
  "days_in_month y m =
     (if m = 2 then (if is_leap y then 29 else 28)
      else if m = 4 \<or> m = 6 \<or> m = 9 \<or> m = 11 then 30 else 31)"

definition days_before_year :: "nat \<Rightarrow> int" where
  "days_before_year y =
     (let p = int y - 1 in p * 365 + p div 4 - p div 100 + p div 400)"

definition days_before_month :: "nat \<Rightarrow> nat \<Rightarrow> int" where
  "days_before_month y m = int (sum_list (map (days_in_month y) [1..<m]))"

text \<open>\<open>date.toordinal()\<close>: 1 for 0001-01-01.\<close>

definition toordinal :: "'a date_scheme \<Rightarrow> int" where
  "toordinal d =
     days_before_year (year d) + days_before_month (year d) (month d) + int (day_of_month d)"

text \<open>
  The position of a datetime on the time line, in microseconds: of its wall-clock
  reading when it is naive, of the UTC instant when it is aware. Two naive datetimes,
  and two aware ones, are ordered by it (for the field values the constructor admits,
  the field-wise comparison CPython uses for equal offsets is the same order).
\<close>

definition instant :: "datetime \<Rightarrow> int" where
  "instant dt =
     (((toordinal dt * 24 + int (hour dt)) * 60 + int (minute dt)) * 60 + int (second dt))
        * 1000000 + int (microsecond dt)
     - (case tzinfo dt of None \<Rightarrow> 0 | Some off \<Rightarrow> off)"

definition aware :: "datetime \<Rightarrow> bool" where
  "aware dt = (case tzinfo dt of None \<Rightarrow> False | Some _ \<Rightarrow> True)"

definition naive :: "datetime \<Rightarrow> bool" where
  "naive dt = (case tzinfo dt of None \<Rightarrow> True | Some _ \<Rightarrow> False)"

text \<open>
  \<open>a < b\<close>, \<open>a <= b\<close> and \<open>a > b\<close> on datetimes: an ordering comparison of a naive with
  an aware datetime raises \<open>TypeError\<close>.
\<close>

definition dt_lt :: "datetime \<Rightarrow> datetime \<Rightarrow> error + bool" where
  "dt_lt a b = (if aware a = aware b then Inr (instant a < instant b) else Inl TypeError)"

definition dt_le :: "datetime \<Rightarrow> datetime \<Rightarrow> error + bool" where
  "dt_le a b = (if aware a = aware b then Inr (instant a \<le> instant b) else Inl TypeError)"

definition dt_gt :: "datetime \<Rightarrow> datetime \<Rightarrow> error + bool" where
  "dt_gt a b = dt_lt b a"

text \<open>\<open>date.isoformat()\<close>: \<open>"%04d-%02d-%02d"\<close>.\<close>

fun decimal :: "nat \<Rightarrow> string" where
  "decimal n =
     (if n < 10 then [''0123456789'' ! n]
      else decimal (n div 10) @ [''0123456789'' ! (n mod 10)])"

declare decimal.simps [simp del]

definition zero_pad :: "nat \<Rightarrow> nat \<Rightarrow> string" where
  "zero_pad w n = replicate (w - length (decimal n)) (CHR ''0'') @ decimal n"

definition isoformat :: "date \<Rightarrow> string" where
  "isoformat d =
     zero_pad 4 (year d) @ ''-'' @ zero_pad 2 (month d) @ ''-'' @ zero_pad 2 (day_of_month d)"

subsection \<open>The library functions the code calls\<close>

text \<open>
  \<open>date.fromisoformat\<close>, \<open>datetime.fromisoformat\<close> and the conversion \<open>float(n)\<close> of an
  \<open>int\<close> belong to the interpreter, and the strings the two parsers accept differ
  between its versions. They are parameters of the model: a parser returns \<open>None\<close>
  where it raises \<open>ValueError\<close>, the conversion returns \<open>None\<close> where it raises
  \<open>OverflowError\<close> (an int too large for a float).
\<close>

record 'f pylib =
  date_fromisoformat :: "string \<Rightarrow> date option"
  datetime_fromisoformat :: "string \<Rightarrow> datetime option"
  float_of_int :: "int \<Rightarrow> 'f option"

text \<open>\<open>float(x)\<close> for an \<open>x\<close> that passed \<open>isinstance(x, (int, float))\<close>.\<close>

definition py_float :: "'f pylib \<Rightarrow> 'f number \<Rightarrow> error + 'f" where
  "py_float L x =
     (case x of
        NFloat v \<Rightarrow> Inr v
      | NInt n \<Rightarrow> (case float_of_int L n of None \<Rightarrow> Inl OverflowError | Some v \<Rightarrow> Inr v)
      | NBool b \<Rightarrow>
          (case float_of_int L (if b then 1 else 0) of
             None \<Rightarrow> Inl OverflowError
           | Some v \<Rightarrow> Inr v))"

text \<open>\<open>float(m) if isinstance(m, (int, float)) else None\<close>.\<close>

definition float_or_none :: "'f pylib \<Rightarrow> 'f number option \<Rightarrow> error + 'f option" where
  "float_or_none L m =
     (case m of
        None \<Rightarrow> Inr None
      | Some x \<Rightarrow> (case py_float L x of Inl e \<Rightarrow> Inl e | Inr v \<Rightarrow> Inr (Some v)))"

section \<open>The coordinator\<close>

text \<open>
  The two dataclasses. The fields \<open>end\<close> and \<open>total\<close> of \<open>ParsedTariff\<close> are \<open>end_t\<close> and
  \<open>total_t\<close> here (\<open>end\<close> is a keyword and \<open>total\<close> a constant of the logic).
  \<open>vat_percentage\<close> keeps the number as the payload has it.
\<close>

record 'f ParsedTariff =
  start :: datetime
  end_t :: datetime
  total_t :: 'f
  market :: "'f option"
  fee :: "'f option"
  tax :: "'f option"

record 'f EssentDayData =
  day :: date
  vat_percentage :: "'f number option"
  unit_of_measurement :: "string option"
  tariffs :: "'f ParsedTariff list"

subsection \<open>One tariff entry\<close>

text \<open>
  The loop over \<open>groups\<close>: \<open>by_type[g["type"]] = g.get("amount")\<close> for every group that
  is a dict with a string \<open>type\<close>.
\<close>

fun by_type_loop :: "(string \<rightharpoonup> 'f json) \<Rightarrow> 'f json list \<Rightarrow> (string \<rightharpoonup> 'f json)" where
  "by_type_loop by_type [] = by_type"
| "by_type_loop by_type (g # gs) =
     (case g of
        JDict gd \<Rightarrow>
          (case get gd ''type'' of
             JStr ty \<Rightarrow> by_type_loop (by_type(ty \<mapsto> get gd ''amount'')) gs
           | _ \<Rightarrow> by_type_loop by_type gs)
      | _ \<Rightarrow> by_type_loop by_type gs)"

text \<open>
  \<open>by_type.get(label) if isinstance(by_type.get(label), (int, float)) else None\<close>.
\<close>

definition group_amount :: "(string \<rightharpoonup> 'f json) \<Rightarrow> string \<Rightarrow> 'f number option" where
  "group_amount by_type label =
     (case by_type label of None \<Rightarrow> None | Some v \<Rightarrow> as_number v)"

text \<open>
  The values of \<open>market\<close>, \<open>fee\<close> and \<open>tax\<close> after the groups block: all \<open>None\<close> unless
  \<open>groups\<close> is a list.
\<close>

definition parse_groups ::
  "'f json \<Rightarrow> 'f number option \<times> 'f number option \<times> 'f number option" where
  "parse_groups groups =
     (case groups of
        JList gs \<Rightarrow>
          (let by_type = by_type_loop Map.empty gs
           in (group_amount by_type ''MARKET_PRICE'',
               group_amount by_type ''PURCHASING_FEE'',
               group_amount by_type ''TAX''))
      | _ \<Rightarrow> (None, None, None))"

text \<open>
  The constructor call \<open>ParsedTariff(start=..., total=float(total), market=..., ...)\<close>:
  the four conversions run in this order and the first that raises ends the call.
\<close>

definition make_tariff ::
  "'f pylib \<Rightarrow> datetime \<Rightarrow> datetime \<Rightarrow> 'f number \<Rightarrow>
   'f number option \<times> 'f number option \<times> 'f number option \<Rightarrow> error + 'f ParsedTariff" where
  "make_tariff L s e tot g =
     (case g of (m, f, x) \<Rightarrow>
        (case py_float L tot of
           Inl err \<Rightarrow> Inl err
         | Inr tv \<Rightarrow>
             (case float_or_none L m of
                Inl err \<Rightarrow> Inl err
              | Inr mv \<Rightarrow>
                  (case float_or_none L f of
                     Inl err \<Rightarrow> Inl err
                   | Inr fv \<Rightarrow>
                       (case float_or_none L x of
                          Inl err \<Rightarrow> Inl err
                        | Inr xv \<Rightarrow>
                            Inr \<lparr>start = s, end_t = e, total_t = tv,
                                 market = mv, fee = fv, tax = xv\<rparr>)))))"

text \<open>
  The body of the loop over \<open>tariffs_raw\<close>: \<open>Inr None\<close> is \<open>continue\<close> (the entry is
  skipped), \<open>Inr (Some p)\<close> appends \<open>p\<close>, \<open>Inl\<close> is an exception that leaves the loop.
\<close>

definition parse_tariff :: "'f pylib \<Rightarrow> 'f json \<Rightarrow> error + 'f ParsedTariff option" where
  "parse_tariff L t =
     (case t of
        JDict td \<Rightarrow>
          (case get td ''startDateTime'' of
             JStr start_str \<Rightarrow>
               (case get td ''endDateTime'' of
                  JStr end_str \<Rightarrow>
                    (case get td ''totalAmount'' of
                       JNull \<Rightarrow> Inr None
                     | total_v \<Rightarrow>
                         (case datetime_fromisoformat L start_str of
                            None \<Rightarrow> Inr None
                          | Some s \<Rightarrow>
                              (case datetime_fromisoformat L end_str of
                                 None \<Rightarrow> Inr None
                               | Some e \<Rightarrow>
                                   (let g = parse_groups (get td ''groups'')
                                    in case as_number total_v of
                                         None \<Rightarrow> Inr None
                                       | Some tot \<Rightarrow>
                                           (case make_tariff L s e tot g of
                                              Inl err \<Rightarrow> Inl err
                                            | Inr p \<Rightarrow> Inr (Some p))))))
                | _ \<Rightarrow> Inr None)
           | _ \<Rightarrow> Inr None)
      | _ \<Rightarrow> Inr None)"

fun parse_loop ::
  "'f pylib \<Rightarrow> 'f json list \<Rightarrow> 'f ParsedTariff list \<Rightarrow> error + 'f ParsedTariff list" where
  "parse_loop L [] parsed_tariffs = Inr parsed_tariffs"
| "parse_loop L (t # ts) parsed_tariffs =
     (case parse_tariff L t of
        Inl err \<Rightarrow> Inl err
      | Inr None \<Rightarrow> parse_loop L ts parsed_tariffs
      | Inr (Some p) \<Rightarrow> parse_loop L ts (parsed_tariffs @ [p]))"

subsection \<open>Sorting by start\<close>

text \<open>
  \<open>list.sort(key=lambda x: x.start)\<close> and \<open>sorted(..., key=lambda t: t.start)\<close> are
  stable and compare the keys with \<open><\<close>. When the list holds a naive and an aware
  start, the sort has to compare two such keys (nothing else orders them) and that
  comparison raises \<open>TypeError\<close>; otherwise all comparisons are defined and the result
  is the stable sort.
\<close>

definition sort_by_start :: "'f ParsedTariff list \<Rightarrow> error + 'f ParsedTariff list" where
  "sort_by_start ts =
     (if list_all (\<lambda>t. naive (start t)) ts \<or> list_all (\<lambda>t. aware (start t)) ts
      then Inr (sort_key (\<lambda>t. instant (start t)) ts)
      else Inl TypeError)"

subsection \<open>\<open>_async_update_data\<close>\<close>

text \<open>
  The day selection loop: the first entry that is a dict with
  \<open>entry.get("date") == today.isoformat()\<close>.
\<close>

fun find_today :: "'f json list \<Rightarrow> string \<Rightarrow> (string \<times> 'f json) list option" where
  "find_today [] today_iso = None"
| "find_today (entry # rest) today_iso =
     (case entry of
        JDict ed \<Rightarrow>
          (case get ed ''date'' of
             JStr s \<Rightarrow> (if s = today_iso then Some ed else find_today rest today_iso)
           | _ \<Rightarrow> find_today rest today_iso)
      | _ \<Rightarrow> find_today rest today_iso)"

text \<open>
  \<open>chosen\<close> after the loop and the fallback to \<open>prices[0]\<close>; \<open>None\<close> is the
  \<open>return None\<close> of the fallback. \<open>prices\<close> is not empty here.
\<close>

definition choose_entry :: "'f json list \<Rightarrow> string \<Rightarrow> (string \<times> 'f json) list option" where
  "choose_entry prices today_iso =
     (case find_today prices today_iso of
        Some ed \<Rightarrow> Some ed
      | None \<Rightarrow>
          (case prices of
             JDict first # _ \<Rightarrow> Some first
           | _ \<Rightarrow> None))"

text \<open>
  \<open>day = date.fromisoformat(day_str) if isinstance(day_str, str) else today\<close>, with
  \<open>today\<close> on \<open>ValueError\<close>.
\<close>

definition parse_day :: "'f pylib \<Rightarrow> (string \<times> 'f json) list \<Rightarrow> date \<Rightarrow> date" where
  "parse_day L chosen today =
     (case get chosen ''date'' of
        JStr day_str \<Rightarrow>
          (case date_fromisoformat L day_str of None \<Rightarrow> today | Some d \<Rightarrow> d)
      | _ \<Rightarrow> today)"

text \<open>From \<open>unit = electricity.get("unitOfMeasurement")\<close> to the end of the function.\<close>

definition parse_electricity ::
  "'f pylib \<Rightarrow> date \<Rightarrow> (string \<times> 'f json) list \<Rightarrow> error + 'f EssentDayData option" where
  "parse_electricity L d electricity =
     (let unit = get electricity ''unitOfMeasurement'';
          vat = get electricity ''vatPercentage''
      in case get electricity ''tariffs'' of
           JList tariffs_raw \<Rightarrow>
             (if tariffs_raw = [] then Inr None
              else
                (case parse_loop L tariffs_raw [] of
                   Inl err \<Rightarrow> Inl err
                 | Inr parsed_tariffs \<Rightarrow>
                     (if parsed_tariffs = [] then Inr None
                      else
                        (case sort_by_start parsed_tariffs of
                           Inl err \<Rightarrow> Inl err
                         | Inr sorted_tariffs \<Rightarrow>
                             Inr (Some
                               \<lparr>day = d,
                                vat_percentage = as_number vat,
                                unit_of_measurement =
                                  (case unit of JStr u \<Rightarrow> Some u | _ \<Rightarrow> None),
                                tariffs = sorted_tariffs\<rparr>)))))
         | _ \<Rightarrow> Inr None)"

text \<open>From \<open>day_str = chosen.get("date")\<close> on, for the chosen entry.\<close>

definition parse_chosen ::
  "'f pylib \<Rightarrow> (string \<times> 'f json) list \<Rightarrow> date \<Rightarrow> error + 'f EssentDayData option" where
  "parse_chosen L chosen today =
     (let d = parse_day L chosen today
      in case get chosen ''electricity'' of
           JDict electricity \<Rightarrow> parse_electricity L d electricity
         | _ \<Rightarrow> Inr None)"

text \<open>From \<open>prices = payload.get("prices")\<close> on, for a decoded payload.\<close>

definition parse_payload :: "'f pylib \<Rightarrow> 'f json \<Rightarrow> date \<Rightarrow> error + 'f EssentDayData option" where
  "parse_payload L payload today =
     (case payload of
        JDict pd \<Rightarrow>
          (case get pd ''prices'' of
             JList prices \<Rightarrow>
               (if prices = [] then Inr None
                else
                  (case choose_entry prices (isoformat today) of
                     None \<Rightarrow> Inr None
                   | Some chosen \<Rightarrow> parse_chosen L chosen today))
           | _ \<Rightarrow> Inr None)
      | _ \<Rightarrow> Inr None)"

text \<open>
  The whole method. \<open>fetched\<close> is the outcome of the \<open>try\<close> block around the HTTP
  request: \<open>None\<close> when anything in it raised (the \<open>except Exception\<close> returns \<open>None\<close>),
  the decoded body otherwise. \<open>today\<close> is \<open>dt_util.now().date()\<close>. The result is
  \<open>Inr None\<close> for \<open>return None\<close>, \<open>Inr (Some d)\<close> for a returned \<open>EssentDayData\<close> and
  \<open>Inl e\<close> when the exception \<open>e\<close> leaves the method.
\<close>

definition async_update_data ::
  "'f pylib \<Rightarrow> 'f json option \<Rightarrow> date \<Rightarrow> error + 'f EssentDayData option" where
  "async_update_data L fetched today =
     (case fetched of
        None \<Rightarrow> Inr None
      | Some payload \<Rightarrow> parse_payload L payload today)"

section \<open>The sensors\<close>

subsection \<open>\<open>_find_next_tariff\<close>\<close>

text \<open>
  \<open>now_cmp\<close>: \<open>now.replace(tzinfo=None)\<close> when the reference is naive, else \<open>now\<close> when
  it is aware already and \<open>now.replace(tzinfo=reference_tzinfo)\<close> when it is not.
\<close>

definition now_cmp :: "int option \<Rightarrow> datetime \<Rightarrow> datetime" where
  "now_cmp reference_tzinfo now =
     (case reference_tzinfo of
        None \<Rightarrow> now\<lparr>tzinfo := None\<rparr>
      | Some z \<Rightarrow> (case tzinfo now of None \<Rightarrow> now\<lparr>tzinfo := Some z\<rparr> | Some _ \<Rightarrow> now))"

text \<open>The first loop: the first tariff with \<open>tariff.start > now_cmp\<close>.\<close>

fun first_after :: "'f ParsedTariff list \<Rightarrow> datetime \<Rightarrow> error + 'f ParsedTariff option" where
  "first_after [] n = Inr None"
| "first_after (tariff # rest) n =
     (case dt_gt (start tariff) n of
        Inl err \<Rightarrow> Inl err
      | Inr b \<Rightarrow> (if b then Inr (Some tariff) else first_after rest n))"

text \<open>The second loop: the first tariff with \<open>tariff.start.date() > today\<close>.\<close>

fun first_next_day :: "'f ParsedTariff list \<Rightarrow> date \<Rightarrow> 'f ParsedTariff option" where
  "first_next_day [] today = None"
| "first_next_day (tariff # rest) today =
     (if date_lt today (date_of (start tariff)) then Some tariff
      else first_next_day rest today)"

definition find_next_tariff ::
  "'f EssentDayData \<Rightarrow> datetime \<Rightarrow> error + 'f ParsedTariff option" where
  "find_next_tariff data now =
     (if tariffs data = [] then Inr None
      else
        (case sort_by_start (tariffs data) of
           Inl err \<Rightarrow> Inl err
         | Inr ts \<Rightarrow>
             (case ts of
                [] \<Rightarrow> Inl IndexError
              | t0 # _ \<Rightarrow>
                  (let n = now_cmp (tzinfo (start t0)) now
                   in case first_after ts n of
                        Inl err \<Rightarrow> Inl err
                      | Inr (Some tariff) \<Rightarrow> Inr (Some tariff)
                      | Inr None \<Rightarrow>
                          (case first_next_day ts (date_of n) of
                             Some tariff \<Rightarrow> Inr (Some tariff)
                           | None \<Rightarrow> Inr (Some (last ts)))))))"

subsection \<open>\<open>_find_tariff_for_moment\<close>\<close>

text \<open>
  \<open>t.start <= moment < t.end\<close> is \<open>t.start <= moment and moment < t.end\<close>: the second
  comparison runs only when the first is true.
\<close>

fun scan_for_moment :: "'f ParsedTariff list \<Rightarrow> datetime \<Rightarrow> error + 'f ParsedTariff option" where
  "scan_for_moment [] moment = Inr None"
| "scan_for_moment (t # rest) moment =
     (case dt_le (start t) moment of
        Inl err \<Rightarrow> Inl err
      | Inr b \<Rightarrow>
          (if b
           then (case dt_lt moment (end_t t) of
                   Inl err \<Rightarrow> Inl err
                 | Inr c \<Rightarrow> (if c then Inr (Some t) else scan_for_moment rest moment))
           else scan_for_moment rest moment))"

definition find_tariff_for_moment ::
  "'f EssentDayData \<Rightarrow> datetime \<Rightarrow> error + 'f ParsedTariff option" where
  "find_tariff_for_moment data moment = scan_for_moment (tariffs data) moment"

subsection \<open>\<open>EssentNowPriceSensor.native_value\<close>\<close>

text \<open>
  \<open>data\<close> is \<open>coordinator.data\<close> and \<open>now\<close> the value of
  \<open>dt_util.as_local(dt_util.now())\<close>, an aware datetime.
\<close>

definition now_price_native_value ::
  "'f EssentDayData option \<Rightarrow> datetime \<Rightarrow> error + 'f option" where
  "now_price_native_value data now =
     (case data of
        None \<Rightarrow> Inr None
      | Some d \<Rightarrow>
          (case find_tariff_for_moment d now of
             Inl err \<Rightarrow> Inl err
           | Inr None \<Rightarrow> Inr None
           | Inr (Some tariff) \<Rightarrow> Inr (Some (total_t tariff))))"

section \<open>A library instance for the examples\<close>

text \<open>
  The examples below run the model on concrete payloads, with this instance of the
  library: floats are rationals, \<open>float(n)\<close> rounds an int to 53 significant bits (ties
  to even) and overflows from \<open>2^1024\<close>, and the parsers read the strings every CPython
  version with \<open>fromisoformat\<close> reads alike: \<open>YYYY-MM-DD\<close> for a date,
  \<open>YYYY-MM-DDTHH:MM:SS\<close> with an optional \<open>+HH:MM\<close> or \<open>-HH:MM\<close> for a datetime. On
  other strings the instance returns \<open>None\<close>, which newer versions do not always do;
  the examples use no such string.
\<close>

function bit_length :: "int \<Rightarrow> nat" where
  "bit_length n = (if n \<le> 0 then 0 else Suc (bit_length (n div 2)))"
  by pat_completeness auto
termination
  by (relation "measure nat") auto

declare bit_length.simps [simp del]

definition double_of_int :: "int \<Rightarrow> rat option" where
  "double_of_int n =
     (let a = \<bar>n\<bar>;
          e = bit_length a - 53;
          q = a div 2 ^ e;
          r = a mod 2 ^ e;
          q' = (if 2 ^ e < 2 * r \<or> (2 * r = 2 ^ e \<and> odd q) then q + 1 else q);
          v = q' * 2 ^ e
      in if 2 ^ 1024 \<le> v then None else Some (of_int (sgn n * v)))"

definition digit_of :: "char \<Rightarrow> nat option" where
  "digit_of c =
     map_of [(CHR ''0'', 0), (CHR ''1'', 1), (CHR ''2'', 2), (CHR ''3'', 3), (CHR ''4'', 4),
             (CHR ''5'', 5), (CHR ''6'', 6), (CHR ''7'', 7), (CHR ''8'', 8), (CHR ''9'', 9)] c"

fun digits_value :: "nat \<Rightarrow> string \<Rightarrow> nat option" where
  "digits_value acc [] = Some acc"
| "digits_value acc (c # cs) =
     (case digit_of c of None \<Rightarrow> None | Some d \<Rightarrow> digits_value (10 * acc + d) cs)"

definition iso_date :: "string \<Rightarrow> date option" where
  "iso_date s =
     (if length s = 10 \<and> s ! 4 = CHR ''-'' \<and> s ! 7 = CHR ''-''
      then
        (case digits_value 0 (take 4 s) of
           None \<Rightarrow> None
         | Some y \<Rightarrow>
             (case digits_value 0 (take 2 (drop 5 s)) of
                None \<Rightarrow> None
              | Some m \<Rightarrow>
                  (case digits_value 0 (drop 8 s) of
                     None \<Rightarrow> None
                   | Some d \<Rightarrow>
                       (if 1 \<le> y \<and> 1 \<le> m \<and> m \<le> 12 \<and> 1 \<le> d \<and> d \<le> days_in_month y m
                        then Some \<lparr>year = y, month = m, day_of_month = d\<rparr>
                        else None))))
      else None)"

definition iso_time :: "string \<Rightarrow> (nat \<times> nat \<times> nat) option" where
  "iso_time s =
     (if length s = 8 \<and> s ! 2 = CHR '':'' \<and> s ! 5 = CHR '':''
      then
        (case digits_value 0 (take 2 s) of
           None \<Rightarrow> None
         | Some h \<Rightarrow>
             (case digits_value 0 (take 2 (drop 3 s)) of
                None \<Rightarrow> None
              | Some m \<Rightarrow>
                  (case digits_value 0 (drop 6 s) of
                     None \<Rightarrow> None
                   | Some x \<Rightarrow>
                       (if h < 24 \<and> m < 60 \<and> x < 60 then Some (h, m, x) else None))))
      else None)"

definition iso_offset :: "string \<Rightarrow> int option" where
  "iso_offset s =
     (if length s = 6 \<and> (s ! 0 = CHR ''+'' \<or> s ! 0 = CHR ''-'') \<and> s ! 3 = CHR '':''
      then
        (case digits_value 0 (take 2 (drop 1 s)) of
           None \<Rightarrow> None
         | Some h \<Rightarrow>
             (case digits_value 0 (drop 4 s) of
                None \<Rightarrow> None
              | Some m \<Rightarrow>
                  (if h < 24 \<and> m < 60
                   then Some ((if s ! 0 = CHR ''-'' then - 1 else 1)
                              * (int h * 60 + int m) * 60000000)
                   else None)))
      else None)"

definition iso_datetime :: "string \<Rightarrow> datetime option" where
  "iso_datetime s =
     (if (length s = 19 \<or> length s = 25) \<and> s ! 10 = CHR ''T''
      then
        (case iso_date (take 10 s) of
           None \<Rightarrow> None
         | Some d \<Rightarrow>
             (case iso_time (take 8 (drop 11 s)) of
                None \<Rightarrow> None
              | Some (h, m, x) \<Rightarrow>
                  (if length s = 19
                   then Some \<lparr>year = year d, month = month d, day_of_month = day_of_month d,
                              hour = h, minute = m, second = x, microsecond = 0,
                              tzinfo = None\<rparr>
                   else
                     (case iso_offset (drop 19 s) of
                        None \<Rightarrow> None
                      | Some off \<Rightarrow>
                          Some \<lparr>year = year d, month = month d, day_of_month = day_of_month d,
                                hour = h, minute = m, second = x, microsecond = 0,
                                tzinfo = Some off\<rparr>))))
      else None)"

definition cpython :: "rat pylib" where
  "cpython =
     \<lparr>date_fromisoformat = iso_date,
      datetime_fromisoformat = iso_datetime,
      float_of_int = double_of_int\<rparr>"

section \<open>Notions the properties are stated with\<close>

subsection \<open>Paths into a payload\<close>

text \<open>
  The chosen entry of a payload, and the value under \<open>electricity.tariffs\<close> of the
  chosen entry, as a list (empty when any step of the path is missing).
\<close>

definition chosen_of :: "'f json \<Rightarrow> date \<Rightarrow> (string \<times> 'f json) list option" where
  "chosen_of payload today =
     (case payload of
        JDict pd \<Rightarrow>
          (case get pd ''prices'' of
             JList prices \<Rightarrow>
               (if prices = [] then None else choose_entry prices (isoformat today))
           | _ \<Rightarrow> None)
      | _ \<Rightarrow> None)"

definition electricity_of :: "'f json \<Rightarrow> date \<Rightarrow> 'f json" where
  "electricity_of payload today =
     (case chosen_of payload today of None \<Rightarrow> JNull | Some c \<Rightarrow> get c ''electricity'')"

definition tariffs_of :: "'f json \<Rightarrow> date \<Rightarrow> 'f json" where
  "tariffs_of payload today =
     (case electricity_of payload today of JDict el \<Rightarrow> get el ''tariffs'' | _ \<Rightarrow> JNull)"

definition chosen_tariffs :: "'f json \<Rightarrow> date \<Rightarrow> 'f json list" where
  "chosen_tariffs payload today =
     (case tariffs_of payload today of JList raw \<Rightarrow> raw | _ \<Rightarrow> [])"

text \<open>The value under \<open>prices\<close> of a payload (\<open>None\<close> when the payload is not an object).\<close>

definition prices_of :: "'f json \<Rightarrow> 'f json" where
  "prices_of payload = (case payload of JDict pd \<Rightarrow> get pd ''prices'' | _ \<Rightarrow> JNull)"

definition is_dict :: "'f json \<Rightarrow> bool" where
  "is_dict v = (case v of JDict _ \<Rightarrow> True | _ \<Rightarrow> False)"

definition nonempty_list :: "'f json \<Rightarrow> bool" where
  "nonempty_list v = (case v of JList xs \<Rightarrow> xs \<noteq> [] | _ \<Rightarrow> False)"

text \<open>The \<open>date\<close> string of a \<open>prices\<close> entry, when the entry is an object that has one.\<close>

definition entry_date :: "'f json \<Rightarrow> string option" where
  "entry_date e =
     (case e of
        JDict ed \<Rightarrow> (case get ed ''date'' of JStr s \<Rightarrow> Some s | _ \<Rightarrow> None)
      | _ \<Rightarrow> None)"

subsection \<open>Tariff entries\<close>

text \<open>
  What the loop reads from a tariff entry: its start and end, when the entry is an
  object whose \<open>startDateTime\<close> (\<open>endDateTime\<close>) is a string that parses, and its total,
  when the entry is an object whose \<open>totalAmount\<close> passes the loop's test
  \<open>isinstance(_, (int, float))\<close>, as a boolean does. \<open>kept_entry\<close> and \<open>skipped_entry\<close>
  are the loop's own tests in these terms (\<open>parse_tariff_skip_iff\<close>): they say what the
  code does, not what the specification asks for.
\<close>

definition entry_datetime :: "'f pylib \<Rightarrow> string \<Rightarrow> 'f json \<Rightarrow> datetime option" where
  "entry_datetime L k e =
     (case e of
        JDict td \<Rightarrow> (case get td k of JStr s \<Rightarrow> datetime_fromisoformat L s | _ \<Rightarrow> None)
      | _ \<Rightarrow> None)"

definition entry_total :: "'f json \<Rightarrow> 'f number option" where
  "entry_total e = (case e of JDict td \<Rightarrow> as_number (get td ''totalAmount'') | _ \<Rightarrow> None)"

definition kept_entry :: "'f pylib \<Rightarrow> 'f json \<Rightarrow> bool" where
  "kept_entry L e =
     (entry_datetime L ''startDateTime'' e \<noteq> None \<and>
      entry_datetime L ''endDateTime'' e \<noteq> None \<and>
      entry_total e \<noteq> None)"

text \<open>
  The entries the loop skips: not an object, or a start or end that is missing, not a
  string or does not parse, or a total that does not pass the loop's test.
\<close>

definition skipped_entry :: "'f pylib \<Rightarrow> 'f json \<Rightarrow> bool" where
  "skipped_entry L e =
     (entry_datetime L ''startDateTime'' e = None \<or>
      entry_datetime L ''endDateTime'' e = None \<or>
      entry_total e = None)"

text \<open>
  Completeness as the specification words it: an object with string timestamps that
  parse and a numeric, non-null \<open>totalAmount\<close>, that is a JSON number, which a boolean is
  not. \<open>boolean_total\<close> holds of the entries with a boolean \<open>totalAmount\<close>.
\<close>

definition json_number :: "'f json \<Rightarrow> bool" where
  "json_number v = (case v of JInt _ \<Rightarrow> True | JFloat _ \<Rightarrow> True | _ \<Rightarrow> False)"

definition complete_as_specified :: "'f pylib \<Rightarrow> 'f json \<Rightarrow> bool" where
  "complete_as_specified L e =
     (entry_datetime L ''startDateTime'' e \<noteq> None \<and>
      entry_datetime L ''endDateTime'' e \<noteq> None \<and>
      (case e of JDict td \<Rightarrow> json_number (get td ''totalAmount'') | _ \<Rightarrow> False))"

definition boolean_total :: "'f json \<Rightarrow> bool" where
  "boolean_total e =
     (case e of
        JDict td \<Rightarrow> (case get td ''totalAmount'' of JBool _ \<Rightarrow> True | _ \<Rightarrow> False)
      | _ \<Rightarrow> False)"

text \<open>
  The triple a kept entry contributes: its parsed start and end and the float of its
  total (or the exception the conversion raises).
\<close>

definition entry_triple ::
  "'f pylib \<Rightarrow> 'f json \<Rightarrow> datetime option \<times> datetime option \<times> (error + 'f) option" where
  "entry_triple L e =
     (entry_datetime L ''startDateTime'' e,
      entry_datetime L ''endDateTime'' e,
      map_option (py_float L) (entry_total e))"

definition tariff_triple ::
  "'f ParsedTariff \<Rightarrow> datetime option \<times> datetime option \<times> (error + 'f) option" where
  "tariff_triple t = (Some (start t), Some (end_t t), Some (Inr (total_t t)))"

text \<open>Ascending by start, in Python's order: no later start is before an earlier one.\<close>

definition ascending_by_start :: "'f ParsedTariff list \<Rightarrow> bool" where
  "ascending_by_start ts = sorted_wrt (\<lambda>a b. dt_le (start a) (start b) = Inr True) ts"

text \<open>All starts naive, or all aware: the starts of the list can be compared.\<close>

definition comparable_starts :: "'f ParsedTariff list \<Rightarrow> bool" where
  "comparable_starts ts =
     (list_all (\<lambda>t. naive (start t)) ts \<or> list_all (\<lambda>t. aware (start t)) ts)"

subsection \<open>Groups\<close>

text \<open>The type of a group (when it is an object with a string type) and its amount.\<close>

definition group_type :: "'f json \<Rightarrow> string option" where
  "group_type g =
     (case g of
        JDict gd \<Rightarrow> (case get gd ''type'' of JStr ty \<Rightarrow> Some ty | _ \<Rightarrow> None)
      | _ \<Rightarrow> None)"

definition group_value :: "'f json \<Rightarrow> 'f json" where
  "group_value g = (case g of JDict gd \<Rightarrow> get gd ''amount'' | _ \<Rightarrow> JNull)"

text \<open>The amount of the last group of a type, when there is such a group.\<close>

definition last_amount :: "'f json list \<Rightarrow> string \<Rightarrow> 'f json option" where
  "last_amount gs ty =
     (case filter (\<lambda>g. group_type g = Some ty) gs of
        [] \<Rightarrow> None
      | g # rest \<Rightarrow> Some (group_value (last (g # rest))))"

definition numeric_amount :: "'f json option \<Rightarrow> 'f number option" where
  "numeric_amount a = (case a of None \<Rightarrow> None | Some v \<Rightarrow> as_number v)"

subsection \<open>When the parser returns \<open>None\<close>\<close>

text \<open>
  The payloads for which the parser returns \<open>None\<close> (\<open>async_update_data_None_iff\<close>):
  \<open>prices\<close> is missing, not a list or empty; no entry has today's date and the first
  entry is not an object; the chosen entry has no \<open>electricity\<close> object; \<open>tariffs\<close> is
  missing, not a list or empty; or the loop skips every tariff entry.
\<close>

definition none_condition :: "'f pylib \<Rightarrow> 'f json \<Rightarrow> date \<Rightarrow> bool" where
  "none_condition L payload today =
     (\<not> nonempty_list (prices_of payload) \<or>
      (case prices_of payload of
         JList prices \<Rightarrow>
           list_all (\<lambda>e. entry_date e \<noteq> Some (isoformat today)) prices \<and> \<not> is_dict (hd prices)
       | _ \<Rightarrow> False) \<or>
      \<not> is_dict (electricity_of payload today) \<or>
      \<not> nonempty_list (tariffs_of payload today) \<or>
      list_all (skipped_entry L) (chosen_tariffs payload today))"

section \<open>Example payloads and day data\<close>

text \<open>
  Builders for the examples: a tariff entry with the three required fields, a payload
  with one \<open>prices\<close> entry, a date, a datetime on the hour, a tariff without price
  components and a day's data without unit and VAT; three naive hourly tariffs; an entry
  with groups, a group and a \<open>prices\<close> entry.
\<close>

definition tariff_entry :: "string \<Rightarrow> string \<Rightarrow> rat json \<Rightarrow> rat json" where
  "tariff_entry s e v =
     JDict [(''startDateTime'', JStr s), (''endDateTime'', JStr e), (''totalAmount'', v)]"

definition day_payload :: "string \<Rightarrow> rat json list \<Rightarrow> rat json" where
  "day_payload d ts =
     JDict [(''prices'',
       JList [JDict [(''date'', JStr d), (''electricity'', JDict [(''tariffs'', JList ts)])]])]"

definition on_day :: "nat \<Rightarrow> nat \<Rightarrow> nat \<Rightarrow> date" where
  "on_day y m d = \<lparr>year = y, month = m, day_of_month = d\<rparr>"

definition at_hour :: "nat \<Rightarrow> nat \<Rightarrow> nat \<Rightarrow> nat \<Rightarrow> int option \<Rightarrow> datetime" where
  "at_hour y m d h z =
     \<lparr>year = y, month = m, day_of_month = d, hour = h, minute = 0, second = 0,
      microsecond = 0, tzinfo = z\<rparr>"

definition priced :: "datetime \<Rightarrow> datetime \<Rightarrow> rat \<Rightarrow> rat ParsedTariff" where
  "priced s e v = \<lparr>start = s, end_t = e, total_t = v, market = None, fee = None, tax = None\<rparr>"

definition day_data :: "date \<Rightarrow> rat ParsedTariff list \<Rightarrow> rat EssentDayData" where
  "day_data d ts = \<lparr>day = d, vat_percentage = None, unit_of_measurement = None, tariffs = ts\<rparr>"

definition three_hours :: "rat EssentDayData" where
  "three_hours =
     day_data (on_day 2024 1 1)
       [priced (at_hour 2024 1 1 10 None) (at_hour 2024 1 1 11 None) (1 / 4),
        priced (at_hour 2024 1 1 11 None) (at_hour 2024 1 1 12 None) (1 / 2),
        priced (at_hour 2024 1 1 12 None) (at_hour 2024 1 1 13 None) (3 / 4)]"

definition entry_with_groups :: "rat json \<Rightarrow> rat json list \<Rightarrow> (string \<times> rat json) list" where
  "entry_with_groups v gs =
     [(''startDateTime'', JStr ''2024-01-01T10:00:00''),
      (''endDateTime'', JStr ''2024-01-01T11:00:00''),
      (''totalAmount'', v),
      (''groups'', JList gs)]"

definition group :: "string \<Rightarrow> rat json \<Rightarrow> rat json" where
  "group ty v = JDict [(''type'', JStr ty), (''amount'', v)]"

definition day_entry :: "string \<Rightarrow> rat json list \<Rightarrow> rat json" where
  "day_entry d ts = JDict [(''date'', JStr d), (''electricity'', JDict [(''tariffs'', JList ts)])]"

section \<open>Lemmas about the coordinator\<close>

subsection \<open>The loop over the tariff entries and the sort\<close>


lemma make_tariff_fields:
  "make_tariff L s e tot g = Inr p \<Longrightarrow> start p = s \<and> end_t p = e \<and> py_float L tot = Inr (total_t p)"
  by (auto simp: make_tariff_def split: prod.splits sum.splits)

lemma parse_tariff_skip_iff: "parse_tariff L e = Inr None \<longleftrightarrow> skipped_entry L e"
  by (auto simp: parse_tariff_def skipped_entry_def entry_datetime_def entry_total_def Let_def
      split: json.splits option.splits sum.splits)

lemma parse_tariff_Some:
  "parse_tariff L e = Inr (Some t) \<Longrightarrow>
     entry_datetime L ''startDateTime'' e = Some (start t) \<and>
     entry_datetime L ''endDateTime'' e = Some (end_t t) \<and>
     (\<exists>n. entry_total e = Some n \<and> py_float L n = Inr (total_t t))"
  by (auto simp: parse_tariff_def entry_datetime_def entry_total_def Let_def
      dest!: make_tariff_fields
      split: json.splits option.splits sum.splits)

lemma parse_loop_acc:
  "parse_loop L ts acc =
     (case parse_loop L ts [] of Inl err \<Rightarrow> Inl err | Inr ps \<Rightarrow> Inr (acc @ ps))"
proof (induction ts arbitrary: acc)
  case Nil
  show ?case by simp
next
  case (Cons t ts)
  show ?case
  proof (cases "parse_tariff L t")
    case (Inl err)
    then show ?thesis by simp
  next
    case (Inr r)
    show ?thesis
    proof (cases r)
      case None
      with Inr show ?thesis using Cons.IH [of acc] by simp
    next
      case (Some p)
      with Inr show ?thesis
        using Cons.IH [of "acc @ [p]"] Cons.IH [of "[p]"]
        by (simp split: sum.splits)
    qed
  qed
qed

lemma parse_loop_append:
  "parse_loop L (xs @ ys) acc =
     (case parse_loop L xs acc of Inl err \<Rightarrow> Inl err | Inr ps \<Rightarrow> parse_loop L ys ps)"
  by (induction xs arbitrary: acc) (auto split: sum.splits option.splits)

lemma parse_loop_skip:
  "skipped_entry L e \<Longrightarrow> parse_loop L (xs @ e # ys) acc = parse_loop L (xs @ ys) acc"
  by (simp add: parse_loop_append parse_tariff_skip_iff [symmetric] split: sum.splits)

lemma parse_loop_triples:
  "parse_loop L raw [] = Inr ps \<Longrightarrow>
     map tariff_triple ps = map (entry_triple L) (filter (kept_entry L) raw)"
proof (induction raw arbitrary: ps)
  case Nil
  then show ?case by simp
next
  case (Cons e raw)
  show ?case
  proof (cases "parse_tariff L e")
    case (Inl err)
    with Cons.prems show ?thesis by simp
  next
    case (Inr r)
    show ?thesis
    proof (cases r)
      case None
      with Inr have "skipped_entry L e" by (simp add: parse_tariff_skip_iff)
      then have "\<not> kept_entry L e" by (auto simp: skipped_entry_def kept_entry_def)
      with Cons None Inr show ?thesis by simp
    next
      case (Some p)
      with Inr have p: "parse_tariff L e = Inr (Some p)" by simp
      from parse_tariff_Some [OF p] have c: "kept_entry L e" and tr: "entry_triple L e = tariff_triple p"
        by (auto simp: kept_entry_def entry_triple_def tariff_triple_def)
      from Cons.prems p obtain qs where qs: "parse_loop L raw [] = Inr qs" and ps: "ps = p # qs"
        using parse_loop_acc [of L raw "[p]"] by (auto split: sum.splits)
      from Cons.IH [OF qs] c tr ps show ?thesis by simp
    qed
  qed
qed

lemma naive_iff_not_aware: "naive dt \<longleftrightarrow> \<not> aware dt"
  by (simp add: naive_def aware_def split: option.splits)

lemma comparable_starts_same:
  "comparable_starts ts \<Longrightarrow> a \<in> set ts \<Longrightarrow> b \<in> set ts \<Longrightarrow> aware (start a) = aware (start b)"
  by (auto simp: comparable_starts_def list_all_iff naive_iff_not_aware)

lemma sort_by_start_Inr:
  "sort_by_start ts = Inr ss \<longleftrightarrow>
     comparable_starts ts \<and> ss = sort_key (\<lambda>t. instant (start t)) ts"
  by (auto simp: sort_by_start_def comparable_starts_def)

lemma sort_by_start_Inl:
  "sort_by_start ts = Inl err \<longleftrightarrow> \<not> comparable_starts ts \<and> err = TypeError"
  by (auto simp: sort_by_start_def comparable_starts_def)

lemma comparable_starts_set:
  "set ss = set ts \<Longrightarrow> comparable_starts ss = comparable_starts ts"
  by (simp add: comparable_starts_def list_all_iff)

lemma ascending_by_start_iff:
  assumes "comparable_starts ts"
  shows "ascending_by_start ts \<longleftrightarrow> sorted (map (\<lambda>t. instant (start t)) ts)"
proof -
  have eq: "(dt_le (start a) (start b) = Inr True) = (instant (start a) \<le> instant (start b))"
    if "a \<in> set ts" "b \<in> set ts" for a b
  proof -
    from assms that have "aware (start a) = aware (start b)" by (rule comparable_starts_same)
    then show ?thesis by (simp add: dt_le_def)
  qed
  have "sorted_wrt (\<lambda>a b. dt_le (start a) (start b) = Inr True) ts
        \<longleftrightarrow> sorted_wrt (\<lambda>a b. instant (start a) \<le> instant (start b)) ts"
    by (rule iffI; erule sorted_wrt_mono_rel [rotated]) (simp_all add: eq)
  then show ?thesis by (simp add: ascending_by_start_def sorted_map)
qed

lemma sort_by_start_ascending:
  assumes "sort_by_start ts = Inr ss"
  shows "ascending_by_start ss" and "comparable_starts ss" and "mset ss = mset ts"
proof -
  from assms have c: "comparable_starts ts" and ss: "ss = sort_key (\<lambda>t. instant (start t)) ts"
    by (simp_all add: sort_by_start_Inr)
  from ss have "set ss = set ts" by simp
  then have "comparable_starts ss = comparable_starts ts" by (rule comparable_starts_set)
  with c show c': "comparable_starts ss" by simp
  from ss show "mset ss = mset ts" by simp
  from ss have "sorted (map (\<lambda>t. instant (start t)) ss)" by simp
  with c' show "ascending_by_start ss" by (simp add: ascending_by_start_iff)
qed

lemma parse_electricity_Some:
  assumes "parse_electricity L d el = Inr (Some data)"
  shows "\<exists>raw ps. get el ''tariffs'' = JList raw \<and> parse_loop L raw [] = Inr ps \<and> ps \<noteq> [] \<and>
           sort_by_start ps = Inr (tariffs data) \<and> day data = d"
proof (cases "get el ''tariffs''")
  case (JList raw)
  show ?thesis
  proof (cases "parse_loop L raw []")
    case (Inl err)
    with assms JList show ?thesis
      by (simp add: parse_electricity_def split: if_splits)
  next
    case (Inr ps)
    show ?thesis
    proof (cases "sort_by_start ps")
      case (Inl err)
      with assms JList Inr show ?thesis
        by (simp add: parse_electricity_def split: if_splits)
    next
      case ss: (Inr ss)
      with assms JList Inr show ?thesis
        by (auto simp: parse_electricity_def split: if_splits)
    qed
  qed
qed (use assms in \<open>simp_all add: parse_electricity_def\<close>)

lemma async_update_data_chosen:
  "async_update_data L (Some payload) today =
     (case chosen_of payload today of
        None \<Rightarrow> Inr None
      | Some c \<Rightarrow> parse_chosen L c today)"
proof (cases payload)
  case (JDict pd)
  then show ?thesis
    by (cases "get pd ''prices''")
      (simp_all add: async_update_data_def parse_payload_def chosen_of_def split: option.splits)
qed (simp_all add: async_update_data_def parse_payload_def chosen_of_def)

lemma parse_chosen_electricity:
  "parse_chosen L c today =
     (case get c ''electricity'' of
        JDict el \<Rightarrow> parse_electricity L (parse_day L c today) el
      | _ \<Rightarrow> Inr None)"
  by (simp add: parse_chosen_def Let_def)

lemma async_update_data_Some:
  assumes "async_update_data L (Some payload) today = Inr (Some data)"
  shows "\<exists>c ps. chosen_of payload today = Some c \<and>
           parse_loop L (chosen_tariffs payload today) [] = Inr ps \<and> ps \<noteq> [] \<and>
           sort_by_start ps = Inr (tariffs data) \<and> day data = parse_day L c today"
proof -
  from assms obtain c where c: "chosen_of payload today = Some c"
    and pc: "parse_chosen L c today = Inr (Some data)"
    by (auto simp: async_update_data_chosen split: option.splits)
  from pc obtain el where el: "get c ''electricity'' = JDict el"
    and pe: "parse_electricity L (parse_day L c today) el = Inr (Some data)"
    by (auto simp: parse_chosen_electricity split: json.splits)
  from parse_electricity_Some [OF pe] obtain raw ps where
    raw: "get el ''tariffs'' = JList raw" and ps: "parse_loop L raw [] = Inr ps" "ps \<noteq> []"
      "sort_by_start ps = Inr (tariffs data)" "day data = parse_day L c today"
    by blast
  from c el raw have "chosen_tariffs payload today = raw"
    by (simp add: chosen_tariffs_def tariffs_of_def electricity_of_def)
  with c ps show ?thesis by auto
qed

lemma async_update_data_triples:
  assumes "async_update_data L (Some payload) today = Inr (Some data)"
  shows "mset (map tariff_triple (tariffs data)) =
         mset (map (entry_triple L) (filter (kept_entry L) (chosen_tariffs payload today)))"
proof -
  from async_update_data_Some [OF assms] obtain ps where
    ps: "parse_loop L (chosen_tariffs payload today) [] = Inr ps"
    and ss: "sort_by_start ps = Inr (tariffs data)"
    by blast
  from sort_by_start_ascending(3) [OF ss] have "mset (tariffs data) = mset ps" .
  then have "mset (map tariff_triple (tariffs data)) = mset (map tariff_triple ps)"
    by (metis mset_map)
  with parse_loop_triples [OF ps] show ?thesis by simp
qed

text \<open>What the parser returns has at least one tariff and is ascending by start.\<close>

lemma async_update_data_invariant:
  assumes "async_update_data L (Some payload) today = Inr (Some data)"
  shows "tariffs data \<noteq> []" and "ascending_by_start (tariffs data)"
proof -
  from async_update_data_Some [OF assms] obtain ps where
    ps: "ps \<noteq> []" and ss: "sort_by_start ps = Inr (tariffs data)"
    by blast
  from ss show "ascending_by_start (tariffs data)" by (rule sort_by_start_ascending(1))
  from sort_by_start_ascending(3) [OF ss] ps show "tariffs data \<noteq> []"
    by (metis mset_zero_iff)
qed

subsection \<open>The exceptions that can leave the parser\<close>

lemma py_float_error: "py_float L x = Inl err \<Longrightarrow> err = OverflowError"
  by (auto simp: py_float_def split: number.splits option.splits)

lemma float_or_none_error: "float_or_none L m = Inl err \<Longrightarrow> err = OverflowError"
  by (auto simp: float_or_none_def split: option.splits sum.splits dest: py_float_error)

lemma make_tariff_error: "make_tariff L s e tot g = Inl err \<Longrightarrow> err = OverflowError"
  by (auto simp: make_tariff_def split: prod.splits sum.splits
      dest: py_float_error float_or_none_error)

lemma parse_tariff_error: "parse_tariff L t = Inl err \<Longrightarrow> err = OverflowError"
proof (cases t)
  case (JDict td)
  assume "parse_tariff L t = Inl err"
  with JDict obtain s e tot where
    "make_tariff L s e tot (parse_groups (get td ''groups'')) = Inl err"
    by (auto simp: parse_tariff_def Let_def split: json.splits option.splits sum.splits)
  then show ?thesis by (rule make_tariff_error)
qed (simp_all add: parse_tariff_def)

lemma parse_loop_error: "parse_loop L ts acc = Inl err \<Longrightarrow> err = OverflowError"
  by (induction ts arbitrary: acc)
    (auto split: sum.splits option.splits dest: parse_tariff_error)

lemma parse_electricity_error:
  assumes "parse_electricity L d el = Inl err"
  shows "err = OverflowError \<or> err = TypeError"
proof (cases "get el ''tariffs''")
  case (JList raw)
  show ?thesis
  proof (cases "parse_loop L raw []")
    case (Inl e)
    with assms JList have "e = err" by (simp add: parse_electricity_def split: if_splits)
    with Inl show ?thesis by (auto dest: parse_loop_error)
  next
    case (Inr ps)
    with assms JList have "sort_by_start ps = Inl err"
      by (simp add: parse_electricity_def split: if_splits sum.splits)
    then show ?thesis by (simp add: sort_by_start_Inl)
  qed
qed (use assms in \<open>simp_all add: parse_electricity_def\<close>)

lemma async_update_data_error:
  assumes "async_update_data L fetched today = Inl err"
  shows "err = OverflowError \<or> err = TypeError"
proof (cases fetched)
  case None
  with assms show ?thesis by (simp add: async_update_data_def)
next
  case (Some payload)
  with assms obtain c where "parse_chosen L c today = Inl err"
    by (auto simp: async_update_data_chosen split: option.splits)
  then obtain el where "parse_electricity L (parse_day L c today) el = Inl err"
    by (auto simp: parse_chosen_electricity split: json.splits)
  then show ?thesis by (rule parse_electricity_error)
qed

lemma async_update_data_fetch_failed: "async_update_data L None today = Inr None"
  by (simp add: async_update_data_def)

subsection \<open>NoData and skipped entries\<close>

lemma find_today_find:
  "map_option JDict (find_today prices today_iso) = find (\<lambda>e. entry_date e = Some today_iso) prices"
  by (induction prices) (auto simp: entry_date_def split: json.splits)

lemma find_today_None_iff:
  "find_today prices today_iso = None \<longleftrightarrow> list_all (\<lambda>e. entry_date e \<noteq> Some today_iso) prices"
proof -
  have "find_today prices today_iso = None \<longleftrightarrow> find (\<lambda>e. entry_date e = Some today_iso) prices = None"
    using find_today_find [of prices today_iso] by (metis map_option_is_None)
  then show ?thesis by (auto simp: find_None_iff list_all_iff)
qed

lemma choose_entry_None_iff:
  assumes "prices \<noteq> []"
  shows "choose_entry prices today_iso = None \<longleftrightarrow>
           list_all (\<lambda>e. entry_date e \<noteq> Some today_iso) prices \<and> \<not> is_dict (hd prices)"
proof -
  from assms obtain p rest where p: "prices = p # rest" by (cases prices) auto
  show ?thesis
    unfolding choose_entry_def find_today_None_iff [symmetric]
    by (cases p) (auto simp: p is_dict_def split: option.splits)
qed

lemma chosen_of_None_iff:
  "chosen_of payload today = None \<longleftrightarrow>
     \<not> nonempty_list (prices_of payload) \<or>
     (case prices_of payload of
        JList prices \<Rightarrow>
          list_all (\<lambda>e. entry_date e \<noteq> Some (isoformat today)) prices \<and> \<not> is_dict (hd prices)
      | _ \<Rightarrow> False)"
proof (cases payload)
  case (JDict pd)
  show ?thesis
  proof (cases "get pd ''prices''")
    case (JList prices)
    with JDict show ?thesis
      by (cases "prices = []")
        (simp_all add: chosen_of_def prices_of_def nonempty_list_def choose_entry_None_iff)
  qed (simp_all add: JDict chosen_of_def prices_of_def nonempty_list_def)
qed (simp_all add: chosen_of_def prices_of_def nonempty_list_def)

lemma parse_loop_Nil_iff:
  "parse_loop L raw [] = Inr [] \<longleftrightarrow> list_all (skipped_entry L) raw"
proof (induction raw)
  case Nil
  show ?case by simp
next
  case (Cons e raw)
  show ?case
  proof (cases "parse_tariff L e")
    case (Inl err)
    then have "\<not> skipped_entry L e" by (simp add: parse_tariff_skip_iff [symmetric])
    with Inl show ?thesis by simp
  next
    case (Inr r)
    show ?thesis
    proof (cases r)
      case None
      with Inr have "skipped_entry L e" by (simp add: parse_tariff_skip_iff [symmetric])
      with Inr None Cons.IH show ?thesis by simp
    next
      case (Some p)
      with Inr have "\<not> skipped_entry L e" by (simp add: parse_tariff_skip_iff [symmetric])
      moreover have "parse_loop L raw [p] \<noteq> Inr []"
        using parse_loop_acc [of L raw "[p]"] by (simp split: sum.splits)
      ultimately show ?thesis using Inr Some by simp
    qed
  qed
qed

lemma parse_electricity_None_iff:
  "parse_electricity L d el = Inr None \<longleftrightarrow>
     \<not> nonempty_list (get el ''tariffs'') \<or>
     (case get el ''tariffs'' of JList raw \<Rightarrow> list_all (skipped_entry L) raw | _ \<Rightarrow> False)"
proof (cases "get el ''tariffs''")
  case (JList raw)
  show ?thesis
  proof (cases "parse_loop L raw []")
    case (Inl err)
    then have "\<not> list_all (skipped_entry L) raw"
      by (simp add: parse_loop_Nil_iff [symmetric])
    moreover from Inl have "raw \<noteq> []" by auto
    ultimately show ?thesis using JList Inl
      by (simp add: parse_electricity_def nonempty_list_def)
  next
    case (Inr ps)
    then have eq: "list_all (skipped_entry L) raw \<longleftrightarrow> ps = []"
      by (simp add: parse_loop_Nil_iff [symmetric])
    show ?thesis
    proof (cases "raw = []")
      case True
      with JList show ?thesis by (simp add: parse_electricity_def nonempty_list_def)
    next
      case False
      with JList Inr eq show ?thesis
        by (auto simp: parse_electricity_def nonempty_list_def split: sum.splits)
    qed
  qed
qed (simp_all add: parse_electricity_def nonempty_list_def)

lemma async_update_data_None_iff:
  "async_update_data L (Some payload) today = Inr None \<longleftrightarrow> none_condition L payload today"
proof (cases "chosen_of payload today")
  case None
  then show ?thesis
    using chosen_of_None_iff [of payload today]
    by (auto simp: async_update_data_chosen none_condition_def)
next
  case (Some c)
  then have no12: "\<not> (\<not> nonempty_list (prices_of payload) \<or>
     (case prices_of payload of
        JList prices \<Rightarrow>
          list_all (\<lambda>e. entry_date e \<noteq> Some (isoformat today)) prices \<and> \<not> is_dict (hd prices)
      | _ \<Rightarrow> False))"
    using chosen_of_None_iff [of payload today] by simp
  from Some have el: "electricity_of payload today = get c ''electricity''"
    by (simp add: electricity_of_def)
  show ?thesis
  proof (cases "get c ''electricity''")
    case (JDict el')
    have "async_update_data L (Some payload) today = parse_electricity L (parse_day L c today) el'"
      by (simp add: async_update_data_chosen Some parse_chosen_electricity JDict)
    moreover have "tariffs_of payload today = get el' ''tariffs''"
      by (simp add: tariffs_of_def el JDict)
    moreover have "is_dict (electricity_of payload today)"
      by (simp add: el JDict is_dict_def)
    ultimately show ?thesis
      using no12
      by (cases "get el' ''tariffs''")
        (auto simp: none_condition_def parse_electricity_None_iff chosen_tariffs_def
          nonempty_list_def)
  qed (use no12 in \<open>simp_all add: async_update_data_chosen Some parse_chosen_electricity
        none_condition_def el is_dict_def\<close>)
qed

lemma parse_electricity_skip:
  assumes "skipped_entry L e"
    and "get el ''tariffs'' = JList (xs @ e # ys)"
    and "get el' ''tariffs'' = JList (xs @ ys)"
    and "get el' ''unitOfMeasurement'' = get el ''unitOfMeasurement''"
    and "get el' ''vatPercentage'' = get el ''vatPercentage''"
  shows "parse_electricity L d el = parse_electricity L d el'"
proof (cases "xs @ ys = []")
  case True
  with assms(1) have "list_all (skipped_entry L) (xs @ e # ys)" by simp
  then have "parse_loop L (xs @ e # ys) [] = Inr []"
    by (simp only: parse_loop_Nil_iff)
  with True assms show ?thesis
    by (simp add: parse_electricity_def)
next
  case False
  with assms show ?thesis
    by (simp add: parse_electricity_def parse_loop_skip)
qed

subsection \<open>Day selection\<close>

lemma choose_entry_find:
  assumes "prices \<noteq> []"
  shows "map_option JDict (choose_entry prices today_iso) =
           (case find (\<lambda>e. entry_date e = Some today_iso) prices of
              Some e \<Rightarrow> Some e
            | None \<Rightarrow> (if is_dict (hd prices) then Some (hd prices) else None))"
proof -
  from assms obtain p rest where p: "prices = p # rest" by (cases prices) auto
  show ?thesis
  proof (cases "find_today prices today_iso")
    case None
    then have "find (\<lambda>e. entry_date e = Some today_iso) prices = None"
      using find_today_find [of prices today_iso] by simp
    with None show ?thesis
      by (cases p) (simp_all add: choose_entry_def p is_dict_def)
  next
    case (Some ed)
    then have "find (\<lambda>e. entry_date e = Some today_iso) prices = Some (JDict ed)"
      using find_today_find [of prices today_iso] by simp
    with Some show ?thesis by (simp add: choose_entry_def)
  qed
qed

lemma parse_day_entry_date:
  "parse_day L chosen today =
     (case entry_date (JDict chosen) of
        None \<Rightarrow> today
      | Some s \<Rightarrow> (case date_fromisoformat L s of None \<Rightarrow> today | Some d \<Rightarrow> d))"
  by (simp add: parse_day_def entry_date_def split: json.splits)

lemma parse_electricity_day:
  "parse_electricity L d el =
     map_sum (\<lambda>err. err) (map_option (\<lambda>x. x\<lparr>day := d\<rparr>)) (parse_electricity L d' el)"
proof (cases "get el ''tariffs''")
  case (JList raw)
  show ?thesis
  proof (cases "parse_loop L raw []")
    case (Inl err)
    with JList show ?thesis by (simp add: parse_electricity_def)
  next
    case (Inr ps)
    with JList show ?thesis
      by (cases "sort_by_start ps") (simp_all add: parse_electricity_def)
  qed
qed (simp_all add: parse_electricity_def)

lemma parse_electricity_day_field:
  "parse_electricity L d el = Inr (Some data) \<Longrightarrow> day data = d"
  using parse_electricity_Some [of L d el data] by blast

subsection \<open>Groups\<close>

lemma last_amount_Nil: "last_amount [] ty = None"
  by (simp add: last_amount_def)

lemma last_amount_Cons:
  "last_amount (g # gs) ty =
     (case last_amount gs ty of
        Some v \<Rightarrow> Some v
      | None \<Rightarrow> (if group_type g = Some ty then Some (group_value g) else None))"
  by (auto simp: last_amount_def split: list.splits)

lemma by_type_loop_last:
  "by_type_loop m gs ty = (case last_amount gs ty of None \<Rightarrow> m ty | Some v \<Rightarrow> Some v)"
proof (induction gs arbitrary: m)
  case Nil
  show ?case by (simp add: last_amount_Nil)
next
  case (Cons g gs)
  show ?case
  proof (cases "group_type g")
    case None
    then have "by_type_loop m (g # gs) = by_type_loop m gs"
      by (auto simp: group_type_def split: json.splits)
    with None show ?thesis by (simp add: Cons.IH last_amount_Cons split: option.splits)
  next
    case (Some ty')
    then have "by_type_loop m (g # gs) = by_type_loop (m(ty' \<mapsto> group_value g)) gs"
      by (auto simp: group_type_def group_value_def split: json.splits)
    with Some show ?thesis by (simp add: Cons.IH last_amount_Cons split: option.splits)
  qed
qed

lemma group_amount_last:
  "group_amount (by_type_loop Map.empty gs) label = numeric_amount (last_amount gs label)"
  by (simp add: group_amount_def numeric_amount_def by_type_loop_last split: option.splits)

lemma parse_groups_last:
  "parse_groups (JList gs) =
     (numeric_amount (last_amount gs ''MARKET_PRICE''),
      numeric_amount (last_amount gs ''PURCHASING_FEE''),
      numeric_amount (last_amount gs ''TAX''))"
  by (simp add: parse_groups_def group_amount_last)

lemma float_or_none_None: "float_or_none L None = Inr None"
  by (simp add: float_or_none_def)

lemma make_tariff_components:
  assumes "make_tariff L s e tot (m, f, x) = Inr p"
  shows "float_or_none L m = Inr (market p)"
    and "float_or_none L f = Inr (fee p)"
    and "float_or_none L x = Inr (tax p)"
  using assms by (auto simp: make_tariff_def split: sum.splits)

lemma make_tariff_no_groups:
  "make_tariff L s e tot (None, None, None) = Inl err \<Longrightarrow> py_float L tot = Inl err"
  by (simp add: make_tariff_def float_or_none_None split: sum.splits)

lemma parse_tariff_Inl_make:
  assumes "parse_tariff L (JDict td) = Inl err"
  shows "\<exists>s e tot. as_number (get td ''totalAmount'') = Some tot \<and>
           make_tariff L s e tot (parse_groups (get td ''groups'')) = Inl err"
  using assms
  by (auto simp: parse_tariff_def Let_def split: json.splits option.splits sum.splits)

lemma parse_tariff_Some_make:
  assumes "parse_tariff L (JDict td) = Inr (Some p)"
  shows "\<exists>s e tot. as_number (get td ''totalAmount'') = Some tot \<and>
           make_tariff L s e tot (parse_groups (get td ''groups'')) = Inr p"
  using assms
  by (auto simp: parse_tariff_def Let_def split: json.splits option.splits sum.splits)

section \<open>Lemmas about the sensors\<close>

lemma first_after_find:
  "list_all (\<lambda>t. aware (start t) = aware n) ts \<Longrightarrow>
     first_after ts n = Inr (find (\<lambda>t. instant n < instant (start t)) ts)"
  by (induction ts) (simp_all add: dt_gt_def dt_lt_def)

lemma first_next_day_find:
  "first_next_day ts d = find (\<lambda>t. date_lt d (date_of (start t))) ts"
  by (induction ts) simp_all

lemma find_sorted_least:
  "sorted (map f xs) \<Longrightarrow> find P xs = Some r \<Longrightarrow> t \<in> set xs \<Longrightarrow> P t \<Longrightarrow> f r \<le> f t"
  by (induction xs) (auto split: if_splits)

lemma find_Some_holds: "find P xs = Some r \<Longrightarrow> r \<in> set xs \<and> P r"
  by (induction xs) (auto split: if_splits)

lemma find_None_none: "find P xs = None \<Longrightarrow> t \<in> set xs \<Longrightarrow> \<not> P t"
  by (induction xs) (auto split: if_splits)

lemma last_sorted_greatest:
  "sorted (map f xs) \<Longrightarrow> t \<in> set xs \<Longrightarrow> f t \<le> f (last xs)"
  by (induction xs) auto

lemma aware_now_cmp: "aware (now_cmp z now) \<longleftrightarrow> z \<noteq> None"
  by (simp add: now_cmp_def aware_def split: option.splits)

lemma aware_tzinfo: "aware dt \<longleftrightarrow> tzinfo dt \<noteq> None"
  by (simp add: aware_def split: option.splits)

lemma find_next_tariff_value:
  assumes ne: "tariffs data \<noteq> []" and cmp: "comparable_starts (tariffs data)"
    and ss: "ss = sort_key (\<lambda>t. instant (start t)) (tariffs data)"
    and n: "n = now_cmp (tzinfo (start (hd ss))) now"
  shows "find_next_tariff data now =
           Inr (Some (case find (\<lambda>t. instant n < instant (start t)) ss of
                        Some t \<Rightarrow> t
                      | None \<Rightarrow>
                          (case find (\<lambda>t. date_lt (date_of n) (date_of (start t))) ss of
                             Some t \<Rightarrow> t
                           | None \<Rightarrow> last ss)))"
    and "\<forall>t \<in> set (tariffs data). aware (start t) = aware n"
proof -
  from ne ss have "set ss = set (tariffs data)" and sne: "ss \<noteq> []"
    by (auto simp: set_empty [symmetric] simp del: set_empty)
  then obtain t0 rest where t0: "ss = t0 # rest" by (cases ss) auto
  with \<open>set ss = set (tariffs data)\<close> have t0_in: "t0 \<in> set (tariffs data)" by auto
  have "aware n \<longleftrightarrow> tzinfo (start t0) \<noteq> None"
    using n t0 by (simp add: aware_now_cmp)
  then have an: "aware n = aware (start t0)"
    by (simp only: aware_tzinfo [of "start t0"])
  show all: "\<forall>t \<in> set (tariffs data). aware (start t) = aware n"
    using comparable_starts_same [OF cmp _ t0_in] an by simp
  with \<open>set ss = set (tariffs data)\<close> have "list_all (\<lambda>t. aware (start t) = aware n) ss"
    by (simp add: list_all_iff)
  then have fa: "first_after ss n = Inr (find (\<lambda>t. instant n < instant (start t)) ss)"
    by (rule first_after_find)
  from cmp ss have sb: "sort_by_start (tariffs data) = Inr ss"
    by (simp add: sort_by_start_Inr)
  have n': "now_cmp (tzinfo (start t0)) now = n" using n t0 by simp
  show "find_next_tariff data now =
           Inr (Some (case find (\<lambda>t. instant n < instant (start t)) ss of
                        Some t \<Rightarrow> t
                      | None \<Rightarrow>
                          (case find (\<lambda>t. date_lt (date_of n) (date_of (start t))) ss of
                             Some t \<Rightarrow> t
                           | None \<Rightarrow> last ss)))"
    using ne sb fa unfolding t0 find_next_tariff_def
    by (simp add: n' first_next_day_find split: option.splits)
qed

lemma dt_le_True_aware: "dt_le a b = Inr True \<Longrightarrow> aware a = aware b"
  by (simp add: dt_le_def split: if_splits)

lemma ascending_comparable:
  assumes "ascending_by_start ts"
  shows "comparable_starts ts"
proof (cases ts)
  case Nil
  then show ?thesis by (simp add: comparable_starts_def)
next
  case (Cons x xs)
  with assms have "\<forall>y \<in> set xs. aware (start y) = aware (start x)"
    by (auto simp: ascending_by_start_def dest: dt_le_True_aware)
  with Cons show ?thesis
    by (cases "aware (start x)")
      (auto simp: comparable_starts_def list_all_iff naive_iff_not_aware)
qed

lemma ascending_sort_id:
  assumes "ascending_by_start ts"
  shows "sort_key (\<lambda>t. instant (start t)) ts = ts"
proof -
  from assms have "comparable_starts ts" by (rule ascending_comparable)
  with assms have "sorted (map (\<lambda>t. instant (start t)) ts)"
    by (simp add: ascending_by_start_iff)
  then show ?thesis by (rule sort_key_id_if_sorted)
qed

lemma find_next_tariff_returns:
  assumes ne: "tariffs data \<noteq> []" and cmp: "comparable_starts (tariffs data)"
  shows "\<exists>r. find_next_tariff data now = Inr (Some r)"
  using find_next_tariff_value(1) [OF ne cmp refl refl, of now] by blast

text \<open>
  When the moment and every start and end are all naive or all aware,
  \<open>_find_tariff_for_moment\<close> returns the first tariff that contains the moment.
\<close>

lemma scan_for_moment_find:
  "list_all (\<lambda>t. aware (start t) = aware moment \<and> aware (end_t t) = aware moment) ts \<Longrightarrow>
     scan_for_moment ts moment =
       Inr (find (\<lambda>t. instant (start t) \<le> instant moment \<and> instant moment < instant (end_t t)) ts)"
  by (induction ts) (simp_all add: dt_le_def dt_lt_def)

section \<open>Properties of the parser\<close>

text \<open>
  C1, as the specification states it: for every payload on which parsing succeeds, every
  tariff of the returned day data has \<open>start < end\<close>. The parser never compares the two
  timestamps. For the payload with one entry from 10:00 to 09:00 on 2024-01-01 it
  returns that tariff, whose start is not before its end.
\<close>

theorem start_before_end_counterexample:
  "async_update_data cpython
     (Some (day_payload ''2024-01-01''
        [tariff_entry ''2024-01-01T10:00:00'' ''2024-01-01T09:00:00'' (JFloat (1 / 4))]))
     (on_day 2024 1 2)
   = Inr (Some (day_data (on_day 2024 1 1)
        [priced (at_hour 2024 1 1 10 None) (at_hour 2024 1 1 9 None) (1 / 4)]))
   \<and> dt_lt (at_hour 2024 1 1 10 None) (at_hour 2024 1 1 9 None) = Inr False"
  by code_simp

text \<open>
  C1, amended: for every payload on which parsing succeeds, every tariff of the returned
  day data is read from an entry of the chosen day's tariffs list: its start and end
  are the parsed \<open>startDateTime\<close> and \<open>endDateTime\<close> of that entry and its total is the
  float of the entry's \<open>totalAmount\<close>, a number. (Whether the start is before the end is
  left to the payload.)
\<close>

theorem tariffs_come_from_entries:
  assumes "async_update_data L (Some payload) today = Inr (Some data)"
    and "t \<in> set (tariffs data)"
  shows "\<exists>e \<in> set (chosen_tariffs payload today).
           entry_datetime L ''startDateTime'' e = Some (start t) \<and>
           entry_datetime L ''endDateTime'' e = Some (end_t t) \<and>
           (\<exists>n. entry_total e = Some n \<and> py_float L n = Inr (total_t t))"
proof -
  let ?raw = "chosen_tariffs payload today"
  from assms(2) have "tariff_triple t \<in> set_mset (mset (map tariff_triple (tariffs data)))"
    by simp
  then have "tariff_triple t \<in> set (map (entry_triple L) (filter (kept_entry L) ?raw))"
    by (simp only: async_update_data_triples [OF assms(1)] set_mset_mset)
  then obtain e where e: "e \<in> set ?raw" and tr: "entry_triple L e = tariff_triple t"
    by auto
  from tr have "entry_datetime L ''startDateTime'' e = Some (start t)"
    and "entry_datetime L ''endDateTime'' e = Some (end_t t)"
    and "map_option (py_float L) (entry_total e) = Some (Inr (total_t t))"
    by (simp_all add: entry_triple_def tariff_triple_def)
  with e show ?thesis by auto
qed

theorem tariffs_come_from_entries_witness:
  "async_update_data cpython
     (Some (day_payload ''2024-01-01''
        [tariff_entry ''2024-01-01T10:00:00'' ''2024-01-01T09:00:00'' (JInt 2)]))
     (on_day 2024 1 2)
   = Inr (Some (day_data (on_day 2024 1 1)
        [priced (at_hour 2024 1 1 10 None) (at_hour 2024 1 1 9 None) 2]))
   \<and> (\<exists>e \<in> set (chosen_tariffs (day_payload ''2024-01-01''
          [tariff_entry ''2024-01-01T10:00:00'' ''2024-01-01T09:00:00'' (JInt 2)])
          (on_day 2024 1 2)).
        entry_datetime cpython ''startDateTime'' e = Some (at_hour 2024 1 1 10 None) \<and>
        entry_datetime cpython ''endDateTime'' e = Some (at_hour 2024 1 1 9 None) \<and>
        (\<exists>n. entry_total e = Some n \<and> py_float cpython n = Inr 2))"
proof -
  let ?p = "day_payload ''2024-01-01''
        [tariff_entry ''2024-01-01T10:00:00'' ''2024-01-01T09:00:00'' (JInt 2)]"
  let ?t = "priced (at_hour 2024 1 1 10 None) (at_hour 2024 1 1 9 None) 2"
  let ?d = "day_data (on_day 2024 1 1) [?t]"
  have run: "async_update_data cpython (Some ?p) (on_day 2024 1 2) = Inr (Some ?d)"
    by code_simp
  have mem: "?t \<in> set (tariffs ?d)"
    by (simp add: day_data_def)
  from tariffs_come_from_entries [OF run mem] run show ?thesis
    by (simp add: priced_def)
qed

text \<open>
  C2: no decoded payload makes the parser raise. The sort by start at the end of
  \<open>_async_update_data\<close> compares the starts of the parsed tariffs; with one naive and
  one aware start among them the comparison raises \<open>TypeError\<close>, which nothing catches.
  Here the first entry starts at \<open>2024-01-01T10:00:00\<close> and the second at
  \<open>2024-01-01T11:00:00+01:00\<close>. (By \<open>async_update_data_error\<close> a \<open>TypeError\<close> of the
  sort and an \<open>OverflowError\<close> of a float conversion are the only exceptions that leave
  the method.)
\<close>

theorem mixed_awareness_payload_raises:
  "async_update_data cpython
     (Some (day_payload ''2024-01-01''
        [tariff_entry ''2024-01-01T10:00:00'' ''2024-01-01T11:00:00'' (JFloat (1 / 4)),
         tariff_entry ''2024-01-01T11:00:00+01:00'' ''2024-01-01T12:00:00+01:00'' (JFloat (1 / 4))]))
     (on_day 2024 1 2)
   = Inl TypeError"
  by code_simp

text \<open>
  The other exception: a \<open>totalAmount\<close> of \<open>10^400\<close>, an int that \<open>float\<close> cannot convert.
\<close>

lemma huge_total_payload_raises:
  "async_update_data cpython
     (Some (day_payload ''2024-01-01''
        [tariff_entry ''2024-01-01T10:00:00'' ''2024-01-01T11:00:00'' (JInt (10 ^ 400))]))
     (on_day 2024 1 2)
   = Inl OverflowError"
  by code_simp

text \<open>
  C6: for every payload on which parsing succeeds, the returned tariffs are sorted
  ascending by start and are exactly the entries of the chosen day's tariffs list with
  string timestamps that parse and a numeric, non-null \<open>totalAmount\<close>. The loop means to
  skip the other totals (\<open>"Tariff totalAmount is not numeric; skipping"\<close>) but tests with
  \<open>isinstance(total, (int, float))\<close>, which a boolean passes, \<open>bool\<close> being a subclass of
  \<open>int\<close>: the entry with \<open>"totalAmount": true\<close> is returned with the total \<open>1.0\<close>,
  although no entry of the payload is complete as specified.
\<close>

theorem boolean_total_is_kept:
  "async_update_data cpython
     (Some (day_payload ''2024-01-01''
        [tariff_entry ''2024-01-01T10:00:00'' ''2024-01-01T11:00:00'' (JBool True)]))
     (on_day 2024 1 2)
   = Inr (Some (day_data (on_day 2024 1 1)
        [priced (at_hour 2024 1 1 10 None) (at_hour 2024 1 1 11 None) 1]))
   \<and> filter (complete_as_specified cpython)
        (chosen_tariffs (day_payload ''2024-01-01''
          [tariff_entry ''2024-01-01T10:00:00'' ''2024-01-01T11:00:00'' (JBool True)])
          (on_day 2024 1 2)) = []"
  by code_simp

text \<open>
  What the code does on every payload: the entries the loop keeps are the entries that
  are complete as specified and, beside them, the entries with parsing timestamps and a
  boolean total; on success the returned tariffs are ascending by start and are the
  kept entries, one tariff for each (as multisets of start, end and total).
\<close>

lemma kept_entry_specified:
  "kept_entry L e \<longleftrightarrow>
     complete_as_specified L e \<or>
     (entry_datetime L ''startDateTime'' e \<noteq> None \<and>
      entry_datetime L ''endDateTime'' e \<noteq> None \<and> boolean_total e)"
proof (cases e)
  case (JDict td)
  then show ?thesis
    by (cases "get td ''totalAmount''")
      (simp_all add: kept_entry_def complete_as_specified_def boolean_total_def
        entry_total_def json_number_def)
qed (simp_all add: kept_entry_def complete_as_specified_def boolean_total_def entry_total_def)

lemma kept_tariffs_sorted_and_exact:
  assumes "async_update_data L (Some payload) today = Inr (Some data)"
  shows "ascending_by_start (tariffs data) \<and>
         mset (map tariff_triple (tariffs data)) =
         mset (map (entry_triple L) (filter (kept_entry L) (chosen_tariffs payload today)))"
proof -
  from async_update_data_Some [OF assms] obtain ps where
    "sort_by_start ps = Inr (tariffs data)"
    by blast
  then have "ascending_by_start (tariffs data)" by (rule sort_by_start_ascending(1))
  with async_update_data_triples [OF assms] show ?thesis by simp
qed

text \<open>
  C7: structural failures of the payload, and zero tariffs surviving the validation,
  yield \<open>None\<close> for the whole payload, and a malformed tariff entry is skipped while the
  others are parsed. An entry whose \<open>totalAmount\<close> is the boolean \<open>true\<close> is malformed (its
  total is not numeric) and the loop means to skip it, but its test
  \<open>isinstance(total, (int, float))\<close> lets it pass. Beside a complete entry it is returned as
  a second tariff with the total \<open>1.0\<close>, where the list without it gives one tariff; as
  the only entry of the list it is returned too, where no entry survives as specified and
  the result should be \<open>None\<close>. (For every other entry the loop does skip what is not
  complete as specified, \<open>kept_entry_specified\<close>; the parser returns \<open>None\<close> exactly under
  \<open>none_condition\<close>, \<open>async_update_data_None_iff\<close>; and an entry the loop skips leaves
  the result of the list unchanged, \<open>parse_electricity_skip\<close>.)
\<close>

theorem boolean_total_is_not_skipped:
  "\<not> complete_as_specified cpython
       (tariff_entry ''2024-01-01T11:00:00'' ''2024-01-01T12:00:00'' (JBool True)) \<and>
   async_update_data cpython
     (Some (day_payload ''2024-01-01''
        [tariff_entry ''2024-01-01T10:00:00'' ''2024-01-01T11:00:00'' (JFloat (1 / 4)),
         tariff_entry ''2024-01-01T11:00:00'' ''2024-01-01T12:00:00'' (JBool True)]))
     (on_day 2024 1 2)
   = Inr (Some (day_data (on_day 2024 1 1)
        [priced (at_hour 2024 1 1 10 None) (at_hour 2024 1 1 11 None) (1 / 4),
         priced (at_hour 2024 1 1 11 None) (at_hour 2024 1 1 12 None) 1])) \<and>
   async_update_data cpython
     (Some (day_payload ''2024-01-01''
        [tariff_entry ''2024-01-01T10:00:00'' ''2024-01-01T11:00:00'' (JFloat (1 / 4))]))
     (on_day 2024 1 2)
   = Inr (Some (day_data (on_day 2024 1 1)
        [priced (at_hour 2024 1 1 10 None) (at_hour 2024 1 1 11 None) (1 / 4)])) \<and>
   async_update_data cpython
     (Some (day_payload ''2024-01-01''
        [tariff_entry ''2024-01-01T11:00:00'' ''2024-01-01T12:00:00'' (JBool True)]))
     (on_day 2024 1 2)
   = Inr (Some (day_data (on_day 2024 1 1)
        [priced (at_hour 2024 1 1 11 None) (at_hour 2024 1 1 12 None) 1]))"
  by code_simp

text \<open>
  C8: for a non-empty \<open>prices\<close> list, the chosen entry is the first entry whose \<open>date\<close>
  string equals \<open>today.isoformat()\<close>, else the first entry when it is an object, else
  there is none and the parser returns \<open>None\<close>. The chosen entry is parsed with the day
  its \<open>date\<close> string parses to, or with \<open>today\<close> when the string is absent or does not
  parse; that day is the day of the returned data, and it has no other effect on the
  result (changing it changes the \<open>day\<close> field only).
\<close>

theorem day_selection:
  assumes "prices \<noteq> []"
  shows "map_option JDict (choose_entry prices (isoformat today)) =
           (case find (\<lambda>e. entry_date e = Some (isoformat today)) prices of
              Some e \<Rightarrow> Some e
            | None \<Rightarrow> (if is_dict (hd prices) then Some (hd prices) else None)) \<and>
         (get pd ''prices'' = JList prices \<longrightarrow>
            async_update_data L (Some (JDict pd)) today =
              (case choose_entry prices (isoformat today) of
                 None \<Rightarrow> Inr None
               | Some chosen \<Rightarrow>
                   (case get chosen ''electricity'' of
                      JDict el \<Rightarrow>
                        parse_electricity L
                          (case entry_date (JDict chosen) of
                             None \<Rightarrow> today
                           | Some s \<Rightarrow>
                               (case date_fromisoformat L s of None \<Rightarrow> today | Some d \<Rightarrow> d))
                          el
                    | _ \<Rightarrow> Inr None))) \<and>
         (parse_electricity L d el = Inr (Some data) \<longrightarrow> day data = d) \<and>
         parse_electricity L d el =
           map_sum (\<lambda>err. err) (map_option (\<lambda>x. x\<lparr>day := d\<rparr>)) (parse_electricity L d' el)"
proof (intro conjI impI)
  show "map_option JDict (choose_entry prices (isoformat today)) =
           (case find (\<lambda>e. entry_date e = Some (isoformat today)) prices of
              Some e \<Rightarrow> Some e
            | None \<Rightarrow> (if is_dict (hd prices) then Some (hd prices) else None))"
    using assms by (rule choose_entry_find)
next
  assume pr: "get pd ''prices'' = JList prices"
  with assms have "chosen_of (JDict pd) today = choose_entry prices (isoformat today)"
    by (simp add: chosen_of_def)
  then show "async_update_data L (Some (JDict pd)) today =
              (case choose_entry prices (isoformat today) of
                 None \<Rightarrow> Inr None
               | Some chosen \<Rightarrow>
                   (case get chosen ''electricity'' of
                      JDict el \<Rightarrow>
                        parse_electricity L
                          (case entry_date (JDict chosen) of
                             None \<Rightarrow> today
                           | Some s \<Rightarrow>
                               (case date_fromisoformat L s of None \<Rightarrow> today | Some d \<Rightarrow> d))
                          el
                    | _ \<Rightarrow> Inr None))"
    by (cases "choose_entry prices (isoformat today)")
      (simp_all only: async_update_data_chosen parse_chosen_electricity
        parse_day_entry_date [symmetric] option.case)
next
  assume "parse_electricity L d el = Inr (Some data)"
  then show "day data = d" by (rule parse_electricity_day_field)
next
  show "parse_electricity L d el =
           map_sum (\<lambda>err. err) (map_option (\<lambda>x. x\<lparr>day := d\<rparr>)) (parse_electricity L d' el)"
    by (rule parse_electricity_day)
qed

theorem day_selection_witness:
  "[day_entry ''2024-01-01''
      [tariff_entry ''2024-01-01T10:00:00'' ''2024-01-01T11:00:00'' (JInt 1)]] \<noteq> [] \<and>
   map_option JDict (choose_entry
     [day_entry ''2024-01-01''
        [tariff_entry ''2024-01-01T10:00:00'' ''2024-01-01T11:00:00'' (JInt 1)]]
     (isoformat (on_day 2024 1 2)))
   = Some (day_entry ''2024-01-01''
        [tariff_entry ''2024-01-01T10:00:00'' ''2024-01-01T11:00:00'' (JInt 1)]) \<and>
   async_update_data cpython
     (Some (JDict [(''prices'', JList
        [day_entry ''2024-01-01''
           [tariff_entry ''2024-01-01T10:00:00'' ''2024-01-01T11:00:00'' (JInt 1)]])]))
     (on_day 2024 1 2)
   = Inr (Some (day_data (on_day 2024 1 1)
        [priced (at_hour 2024 1 1 10 None) (at_hour 2024 1 1 11 None) 1]))"
proof -
  let ?e = "tariff_entry ''2024-01-01T10:00:00'' ''2024-01-01T11:00:00'' (JInt 1)"
  let ?prices = "[day_entry ''2024-01-01'' [?e]]"
  let ?pd = "[(''prices'', JList ?prices)]"
  let ?today = "on_day 2024 1 2"
  have ne: "?prices \<noteq> []" by simp
  have pr: "get ?pd ''prices'' = JList ?prices" by (simp add: get_def)
  note T = day_selection [OF ne, of ?today ?pd cpython]
  have pick: "(case find (\<lambda>e. entry_date e = Some (isoformat ?today)) ?prices of
              Some e \<Rightarrow> Some e
            | None \<Rightarrow> (if is_dict (hd ?prices) then Some (hd ?prices) else None))
        = Some (day_entry ''2024-01-01'' [?e])"
    by code_simp
  have run: "(case choose_entry ?prices (isoformat ?today) of
                 None \<Rightarrow> Inr None
               | Some chosen \<Rightarrow>
                   (case get chosen ''electricity'' of
                      JDict el \<Rightarrow>
                        parse_electricity cpython
                          (case entry_date (JDict chosen) of
                             None \<Rightarrow> ?today
                           | Some s \<Rightarrow>
                               (case date_fromisoformat cpython s of None \<Rightarrow> ?today | Some d \<Rightarrow> d))
                          el
                    | _ \<Rightarrow> Inr None))
     = Inr (Some (day_data (on_day 2024 1 1)
        [priced (at_hour 2024 1 1 10 None) (at_hour 2024 1 1 11 None) 1]))"
    by code_simp
  from T pick have c1: "map_option JDict (choose_entry ?prices (isoformat ?today))
      = Some (day_entry ''2024-01-01'' [?e])"
    by (simp only:)
  from T pr run have c2: "async_update_data cpython (Some (JDict ?pd)) ?today
     = Inr (Some (day_data (on_day 2024 1 1)
        [priced (at_hour 2024 1 1 10 None) (at_hour 2024 1 1 11 None) 1]))"
    by (simp only:)
  from ne c1 c2 show ?thesis by (intro conjI)
qed

text \<open>
  C9: for every tariff entry with a groups sequence, group objects with a string type
  map to their amount, the last occurrence of a type winning, and for the labels
  \<open>MARKET_PRICE\<close>, \<open>PURCHASING_FEE\<close> and \<open>TAX\<close> a non-numeric or absent amount yields null
  for the field, never an exception. The amounts are tested with
  \<open>isinstance(_, (int, float))\<close> as the total is, and a boolean passes that test: the
  amount \<open>true\<close> of a \<open>TAX\<close> group, which is not a number, yields the tax \<open>1.0\<close> instead of
  null.
\<close>

theorem boolean_amount_is_not_null:
  "parse_tariff cpython (JDict (entry_with_groups (JInt 1) [group ''TAX'' (JBool True)]))
   = Inr (Some
       \<lparr>start = at_hour 2024 1 1 10 None, end_t = at_hour 2024 1 1 11 None, total_t = 1,
        market = None, fee = None, tax = Some 1\<rparr>)
   \<and> \<not> json_number (JBool True :: rat json)"
  by code_simp

text \<open>
  What the code does with the groups of an entry it keeps: the mapping holds, for each
  type, the amount of the last group that is an object with that string type
  (\<open>by_type_loop_last\<close>), and the tariff is built from the three amounts that pass the
  test, each \<open>None\<close> otherwise; the conversion of \<open>None\<close> is \<open>None\<close> and raises nothing
  (\<open>float_or_none_None\<close>).
\<close>

lemma by_type_last_wins: "by_type_loop Map.empty gs ty = last_amount gs ty"
  by (simp add: by_type_loop_last split: option.splits)

lemma parse_tariff_groups:
  assumes "get td ''groups'' = JList gs"
    and "entry_datetime L ''startDateTime'' (JDict td) = Some s"
    and "entry_datetime L ''endDateTime'' (JDict td) = Some e"
    and "entry_total (JDict td) = Some tot"
  shows "parse_tariff L (JDict td) =
           (case make_tariff L s e tot
                   (numeric_amount (last_amount gs ''MARKET_PRICE''),
                    numeric_amount (last_amount gs ''PURCHASING_FEE''),
                    numeric_amount (last_amount gs ''TAX'')) of
              Inl err \<Rightarrow> Inl err
            | Inr p \<Rightarrow> Inr (Some p))"
  using assms
  by (auto simp: parse_tariff_def entry_datetime_def entry_total_def parse_groups_last Let_def
      split: json.splits option.splits sum.splits)

section \<open>Properties of the sensors\<close>

text \<open>
  C4: \<open>_find_next_tariff\<close> returns \<open>None\<close> for day data without tariffs. For day data
  with at least one tariff, ascending by start (as \<open>async_update_data_invariant\<close> shows
  for what the parser returns), and every moment \<open>now\<close>, it returns a tariff \<open>r\<close> of the
  data. With \<open>n\<close> the moment normalised to the awareness of the first tariff: if some
  tariff starts after \<open>n\<close>, then \<open>r\<close> starts after \<open>n\<close> and no tariff that starts after
  \<open>n\<close> starts before \<open>r\<close>; otherwise, if some tariff starts on a later calendar date
  than \<open>n\<close>, then \<open>r\<close> does and no such tariff starts before \<open>r\<close>; otherwise no tariff
  starts after \<open>r\<close>.
\<close>

theorem find_next_tariff_tiers:
  "(tariffs data = [] \<longrightarrow> find_next_tariff data now = Inr None) \<and>
   (tariffs data \<noteq> [] \<and> ascending_by_start (tariffs data) \<longrightarrow>
      (\<exists>r. find_next_tariff data now = Inr (Some r) \<and> r \<in> set (tariffs data) \<and>
               (let n = now_cmp (tzinfo (start (hd (tariffs data)))) now
                in if \<exists>t \<in> set (tariffs data). dt_gt (start t) n = Inr True
                   then dt_gt (start r) n = Inr True \<and>
                        (\<forall>t \<in> set (tariffs data).
                           dt_gt (start t) n = Inr True \<longrightarrow> dt_le (start r) (start t) = Inr True)
                   else if \<exists>t \<in> set (tariffs data). date_lt (date_of n) (date_of (start t))
                   then date_lt (date_of n) (date_of (start r)) \<and>
                        (\<forall>t \<in> set (tariffs data).
                           date_lt (date_of n) (date_of (start t)) \<longrightarrow>
                           dt_le (start r) (start t) = Inr True)
                   else \<forall>t \<in> set (tariffs data). dt_le (start t) (start r) = Inr True)))"
proof (intro conjI impI)
  assume "tariffs data = []"
  then show "find_next_tariff data now = Inr None"
    by (simp add: find_next_tariff_def)
next
  assume hyp: "tariffs data \<noteq> [] \<and> ascending_by_start (tariffs data)"
  then have ne: "tariffs data \<noteq> []" and asc: "ascending_by_start (tariffs data)"
    by simp_all
  show "\<exists>r. find_next_tariff data now = Inr (Some r) \<and> r \<in> set (tariffs data) \<and>
           (let n = now_cmp (tzinfo (start (hd (tariffs data)))) now
            in if \<exists>t \<in> set (tariffs data). dt_gt (start t) n = Inr True
               then dt_gt (start r) n = Inr True \<and>
                    (\<forall>t \<in> set (tariffs data).
                       dt_gt (start t) n = Inr True \<longrightarrow> dt_le (start r) (start t) = Inr True)
               else if \<exists>t \<in> set (tariffs data). date_lt (date_of n) (date_of (start t))
               then date_lt (date_of n) (date_of (start r)) \<and>
                    (\<forall>t \<in> set (tariffs data).
                       date_lt (date_of n) (date_of (start t)) \<longrightarrow>
                       dt_le (start r) (start t) = Inr True)
               else \<forall>t \<in> set (tariffs data). dt_le (start t) (start r) = Inr True)"
  proof -
    let ?ts = "tariffs data"
    let ?key = "\<lambda>t. instant (start t)"
    define n where "n = now_cmp (tzinfo (start (hd ?ts))) now"
    let ?P = "\<lambda>t. instant n < instant (start t)"
    let ?Q = "\<lambda>t. date_lt (date_of n) (date_of (start t))"
    define r where "r = (case find ?P ?ts of Some t \<Rightarrow> t
        | None \<Rightarrow> (case find ?Q ?ts of Some t \<Rightarrow> t | None \<Rightarrow> last ?ts))"
    from asc have cmp: "comparable_starts ?ts" by (rule ascending_comparable)
    from asc have sid: "?ts = sort_key ?key ?ts" by (simp add: ascending_sort_id)
    from cmp asc have srt: "sorted (map ?key ?ts)" by (simp add: ascending_by_start_iff)
    have n': "n = now_cmp (tzinfo (start (hd ?ts))) now" by (simp add: n_def)
    note val = find_next_tariff_value [OF ne cmp sid n']
    from val(1) have run: "find_next_tariff data now = Inr (Some r)" by (simp add: r_def)
    from val(2) have aw: "aware (start t) = aware n" if "t \<in> set ?ts" for t using that by simp
    have gt: "dt_gt (start t) n = Inr True \<longleftrightarrow> ?P t" if "t \<in> set ?ts" for t
      using aw [OF that] by (simp add: dt_gt_def dt_lt_def)
    have le: "dt_le (start a) (start b) = Inr True \<longleftrightarrow> ?key a \<le> ?key b"
      if "a \<in> set ?ts" "b \<in> set ?ts" for a b
      using aw [OF that(1)] aw [OF that(2)] by (simp add: dt_le_def)
    have r_in: "r \<in> set ?ts"
      using ne by (auto simp: r_def split: option.splits dest: find_Some_holds)
    have tiers: "if \<exists>t \<in> set ?ts. dt_gt (start t) n = Inr True
                 then dt_gt (start r) n = Inr True \<and>
                      (\<forall>t \<in> set ?ts. dt_gt (start t) n = Inr True \<longrightarrow> dt_le (start r) (start t) = Inr True)
                 else if \<exists>t \<in> set ?ts. ?Q t
                 then ?Q r \<and> (\<forall>t \<in> set ?ts. ?Q t \<longrightarrow> dt_le (start r) (start t) = Inr True)
                 else \<forall>t \<in> set ?ts. dt_le (start t) (start r) = Inr True"
    proof (cases "find ?P ?ts")
      case (Some t1)
      then have r1: "r = t1" by (simp add: r_def)
      from find_Some_holds [OF Some] have "t1 \<in> set ?ts" "?P t1" by simp_all
      moreover have "?key t1 \<le> ?key t" if "t \<in> set ?ts" "?P t" for t
        using find_sorted_least [OF srt Some that] .
      ultimately show ?thesis
        using r_in by (auto simp: r1 gt le)
    next
      case None
      then have noP: "\<not> ?P t" if "t \<in> set ?ts" for t using that by (rule find_None_none)
      then have no1: "\<not> (\<exists>t \<in> set ?ts. dt_gt (start t) n = Inr True)" by (simp add: gt)
      show ?thesis
      proof (cases "find ?Q ?ts")
        case (Some t2)
        with None have r2: "r = t2" by (simp add: r_def)
        from find_Some_holds [OF Some] have "t2 \<in> set ?ts" "?Q t2" by simp_all
        moreover have "?key t2 \<le> ?key t" if "t \<in> set ?ts" "?Q t" for t
          using find_sorted_least [OF srt Some that] .
        ultimately show ?thesis
          using no1 r_in by (auto simp: r2 le)
      next
        case noQ: None
        with None have r3: "r = last ?ts" by (simp add: r_def)
        have "\<not> ?Q t" if "t \<in> set ?ts" for t using noQ that by (rule find_None_none)
        moreover have "?key t \<le> ?key (last ?ts)" if "t \<in> set ?ts" for t
          using last_sorted_greatest [OF srt that] .
        ultimately show ?thesis
          using no1 r_in by (auto simp: r3 le)
      qed
    qed
    from run r_in tiers show ?thesis
      unfolding n_def Let_def by blast
  qed
qed

theorem find_next_tariff_tiers_witness:
  "tariffs three_hours \<noteq> [] \<and> ascending_by_start (tariffs three_hours) \<and>
   (\<exists>r. find_next_tariff three_hours (at_hour 2024 1 1 13 None) = Inr (Some r) \<and>
        r \<in> set (tariffs three_hours)) \<and>
   find_next_tariff three_hours (at_hour 2024 1 1 13 None)
     = Inr (Some (priced (at_hour 2024 1 1 12 None) (at_hour 2024 1 1 13 None) (3 / 4))) \<and>
   find_next_tariff three_hours (at_hour 2024 1 1 10 None)
     = Inr (Some (priced (at_hour 2024 1 1 11 None) (at_hour 2024 1 1 12 None) (1 / 2)))"
proof -
  have ne: "tariffs three_hours \<noteq> []" by code_simp
  have asc: "ascending_by_start (tariffs three_hours)" by code_simp
  have ex: "\<exists>r. find_next_tariff three_hours (at_hour 2024 1 1 13 None) = Inr (Some r) \<and>
        r \<in> set (tariffs three_hours)"
    using find_next_tariff_tiers [of three_hours "at_hour 2024 1 1 13 None"] ne asc by blast
  have last: "find_next_tariff three_hours (at_hour 2024 1 1 13 None)
     = Inr (Some (priced (at_hour 2024 1 1 12 None) (at_hour 2024 1 1 13 None) (3 / 4)))"
    by code_simp
  have nxt: "find_next_tariff three_hours (at_hour 2024 1 1 10 None)
     = Inr (Some (priced (at_hour 2024 1 1 11 None) (at_hour 2024 1 1 12 None) (1 / 2)))"
    by code_simp
  from ne asc ex last nxt show ?thesis by (intro conjI)
qed

text \<open>
  C5: for every day data and moment, \<open>_find_tariff_for_moment\<close> returns the first tariff
  with \<open>start \<le> moment < end\<close>, or \<open>None\<close>. It compares the moment with the tariffs as it
  is given: for the naive tariffs of the example and the aware moment
  \<open>2024-01-01T10:00:00+01:00\<close> the first comparison raises \<open>TypeError\<close>. (Where the
  comparisons are defined, \<open>scan_for_moment_find\<close> shows the result the claim states.)
\<close>

theorem find_tariff_for_moment_naive_aware:
  "find_tariff_for_moment three_hours (at_hour 2024 1 1 10 (Some 3600000000)) = Inl TypeError"
  by code_simp

text \<open>
  C10: \<open>_find_tariff_for_moment\<close> does not normalise the awareness of its moment. For
  day data with at least one tariff whose starts are all naive and an aware moment, and
  for aware starts and a naive moment, it raises \<open>TypeError\<close> instead of returning
  \<open>None\<close>, and so does the value of the now-price sensor, which passes it the aware
  local time; \<open>_find_next_tariff\<close> on the same arguments returns a tariff.
\<close>

theorem find_tariff_for_moment_raises:
  assumes ne: "tariffs data \<noteq> []"
    and mix: "(list_all (\<lambda>t. naive (start t)) (tariffs data) \<and> aware moment) \<or>
              (list_all (\<lambda>t. aware (start t)) (tariffs data) \<and> naive moment)"
  shows "find_tariff_for_moment data moment = Inl TypeError \<and>
         now_price_native_value (Some data) moment = Inl TypeError \<and>
         (\<exists>r. find_next_tariff data moment = Inr (Some r))"
proof -
  from ne obtain t rest where ts: "tariffs data = t # rest" by (cases "tariffs data") auto
  from mix ts have "aware (start t) \<noteq> aware moment"
    by (auto simp: naive_iff_not_aware)
  then have "dt_le (start t) moment = Inl TypeError" by (simp add: dt_le_def)
  with ts have raise: "find_tariff_for_moment data moment = Inl TypeError"
    by (simp add: find_tariff_for_moment_def)
  then have "now_price_native_value (Some data) moment = Inl TypeError"
    by (simp add: now_price_native_value_def)
  moreover from mix have "comparable_starts (tariffs data)"
    by (auto simp: comparable_starts_def)
  then have "\<exists>r. find_next_tariff data moment = Inr (Some r)"
    using ne by (simp add: find_next_tariff_returns)
  ultimately show ?thesis using raise by simp
qed

theorem find_tariff_for_moment_raises_witness:
  "tariffs three_hours \<noteq> [] \<and>
   list_all (\<lambda>t. naive (start t)) (tariffs three_hours) \<and>
   aware (at_hour 2024 1 1 10 (Some 3600000000)) \<and>
   find_tariff_for_moment three_hours (at_hour 2024 1 1 10 (Some 3600000000)) = Inl TypeError \<and>
   now_price_native_value (Some three_hours) (at_hour 2024 1 1 10 (Some 3600000000))
     = Inl TypeError \<and>
   find_next_tariff three_hours (at_hour 2024 1 1 10 (Some 3600000000))
     = Inr (Some (priced (at_hour 2024 1 1 11 None) (at_hour 2024 1 1 12 None) (1 / 2)))"
proof -
  let ?m = "at_hour 2024 1 1 10 (Some 3600000000)"
  have ne: "tariffs three_hours \<noteq> []" by code_simp
  have nv: "list_all (\<lambda>t. naive (start t)) (tariffs three_hours)" by code_simp
  have aw: "aware ?m" by code_simp
  have nx: "find_next_tariff three_hours ?m
     = Inr (Some (priced (at_hour 2024 1 1 11 None) (at_hour 2024 1 1 12 None) (1 / 2)))"
    by code_simp
  from nv aw have mix: "(list_all (\<lambda>t. naive (start t)) (tariffs three_hours) \<and> aware ?m) \<or>
              (list_all (\<lambda>t. aware (start t)) (tariffs three_hours) \<and> naive ?m)"
    by simp
  from find_tariff_for_moment_raises [OF ne mix] ne nv aw nx show ?thesis by simp
qed

end
